theory Spec2Isabelle
  imports Complex_Main "HOL-Library.Word"
begin

section \<open>Data model\<close>

text \<open>
  The chat client of the repository, embedded from its TypeScript sources: the
  \<open>ChatProvider\<close> of \<open>contexts/ChatContext\<close>, the \<open>AuthProvider\<close> of
  \<open>contexts/AuthContext\<close> and the \<open>ApiService\<close> of \<open>services/api\<close>.

  The texts that a user or the server writes, the contents of messages and the titles of
  sessions, are lists of UTF-16 code units (\<open>utf16\<close>), which is what \<open>slice\<close> and
  \<open>length\<close> count; \<open>js\<close> gives the code units of an ASCII literal. Identifiers, time
  stamps, URLs, tokens and the messages of errors, which the program only builds from
  ASCII pieces, passes on or compares, are kept as \<open>string\<close>. A \<open>Date\<close> is kept as the
  argument it was built from: \<open>new Date(s)\<close> from a server string, \<open>new Date()\<close> from
  a reading of the clock. A thrown value is a \<open>jserror\<close>.
\<close>

type_synonym utf16 = "16 word list"

definition js :: "string \<Rightarrow> utf16" where
  "js s = map of_char s"

datatype jserror = Error string | TypeError string | SyntaxError string

datatype jsdate = DateOfString string | DateOfClock nat

datatype role = user | assistant

text \<open>\<open>types\<close>: the interfaces \<open>Message\<close> and \<open>ChatHistory\<close> of the client.\<close>

record Message =
  msg_id :: string
  msg_content :: utf16
  msg_role :: role
  msg_timestamp :: jsdate

record ChatHistory =
  chat_id :: string
  title :: utf16
  messages :: "Message list"
  createdAt :: jsdate
  updatedAt :: jsdate

text \<open>\<open>services/api\<close>: the interfaces \<open>ChatSession\<close> and \<open>Message\<close> of the server.\<close>

record ChatSession =
  session_id :: int
  session_title :: utf16
  created_at :: string
  updated_at :: string

record ApiMessage =
  api_id :: int
  api_content :: utf16
  is_user_message :: bool
  api_timestamp :: string

section \<open>Strings and numbers of JavaScript\<close>

text \<open>\<open>s.startsWith(p)\<close>.\<close>

fun startsWith :: "string \<Rightarrow> string \<Rightarrow> bool" where
  "startsWith s [] = True"
| "startsWith [] (p # ps) = False"
| "startsWith (c # cs) (p # ps) = (c = p \<and> startsWith cs ps)"

text \<open>\<open>s.slice(0, n)\<close> for a non-negative \<open>n\<close>.\<close>

definition slice0 :: "utf16 \<Rightarrow> nat \<Rightarrow> utf16" where
  "slice0 s n = take n s"

text \<open>
  \<open>n.toString()\<close> of an integer: its decimal digits, with a minus sign when negative
  (the exponent notation of numbers from \<open>10^21\<close> on is not modelled).
\<close>

definition digit_char :: "nat \<Rightarrow> char" where
  "digit_char d = ''0123456789'' ! d"

fun digits :: "nat \<Rightarrow> string" where
  "digits n = (if n < 10 then [digit_char n] else digits (n div 10) @ [digit_char (n mod 10)])"

declare digits.simps [simp del]

definition toString :: "int \<Rightarrow> string" where
  "toString i = (if i < 0 then CHR ''-'' # digits (nat (- i)) else digits (nat i))"

text \<open>
  \<open>parseInt(s)\<close>: leading white space is skipped, a sign is read, then the longest run
  of decimal digits; the result is \<open>NaN\<close> when there is no digit. (A \<open>0x\<close> prefix, which
  \<open>parseInt\<close> reads as hexadecimal, is not modelled: it gives \<open>Num 0\<close> here.)
\<close>

datatype number = NaN | Num int

definition is_digit :: "char \<Rightarrow> bool" where
  "is_digit c = ((48::nat) \<le> of_char c \<and> of_char c \<le> (57::nat))"

definition is_space :: "char \<Rightarrow> bool" where
  "is_space c = (of_char c \<in> {9, 10, 11, 12, 13, 32::nat})"

definition digit_val :: "char \<Rightarrow> nat" where
  "digit_val c = of_char c - 48"

definition parse_digits :: "string \<Rightarrow> number" where
  "parse_digits s =
     (let ds = takeWhile is_digit s
      in if ds = [] then NaN
         else Num (int (foldl (\<lambda>acc c. acc * 10 + digit_val c) 0 ds)))"

definition negate :: "number \<Rightarrow> number" where
  "negate x = (case x of NaN \<Rightarrow> NaN | Num i \<Rightarrow> Num (- i))"

definition parseInt :: "string \<Rightarrow> number" where
  "parseInt s =
     (case dropWhile is_space s of
        [] \<Rightarrow> NaN
      | c # cs \<Rightarrow>
          if c = CHR ''-'' then negate (parse_digits cs)
          else if c = CHR ''+'' then parse_digits cs
          else parse_digits (c # cs))"

subsection \<open>Numbers are doubles\<close>

text \<open>
  A JavaScript number is an IEEE 754 double. The result of \<open>*\<close> and \<open>+\<close> is the exact
  result rounded to the nearest double, a tie going to the double with an even
  significand: \<open>fl\<close>. A double has 53 significant bits, and from \<open>2^-1022\<close> downwards
  the spacing stays \<open>2^-1074\<close>. (Overflow to \<open>Infinity\<close> is not modelled: the
  numbers of this program stay far below \<open>2^1024\<close>.)
\<close>

definition round_even :: "real \<Rightarrow> int" where
  "round_even y =
     (let f = \<lfloor>y\<rfloor>
      in if y - of_int f < 1 / 2 then f
         else if 1 / 2 < y - of_int f then f + 1
         else if even f then f else f + 1)"

definition exponent :: "real \<Rightarrow> int" where
  "exponent x = max \<lfloor>log 2 x\<rfloor> (- 1022)"

text \<open>The spacing of the doubles around a positive number.\<close>

definition ulp :: "real \<Rightarrow> real" where
  "ulp x = 2 powr (of_int (exponent x) - 52)"

definition fl :: "real \<Rightarrow> real" where
  "fl x = (if x = 0 then 0 else sgn x * of_int (round_even (\<bar>x\<bar> / ulp \<bar>x\<bar>)) * ulp \<bar>x\<bar>)"

text \<open>A number is a double when rounding leaves it as it is.\<close>

definition is_double :: "real \<Rightarrow> bool" where
  "is_double x = (fl x = x)"

text \<open>\<open>x * y\<close> and \<open>x + y\<close> on numbers.\<close>

definition js_times :: "real \<Rightarrow> real \<Rightarrow> real" where
  "js_times x y = fl (x * y)"

definition js_plus :: "real \<Rightarrow> real \<Rightarrow> real" where
  "js_plus x y = fl (x + y)"

section \<open>The environment of the chat core\<close>

text \<open>
  \<open>ChatProvider\<close> reaches the network only through the methods of \<open>apiService\<close>. Each
  of them either resolves with a value or throws; the environment gives that outcome for
  every call, and every call is recorded in \<open>calls\<close>. The clock (\<open>Date.now()\<close>,
  \<open>new Date()\<close>), \<open>uuidv4()\<close> and \<open>Math.random()\<close> are read from the environment too,
  the k-th reading being the value at index \<open>k\<close>. A reading of \<open>Math.random()\<close> is a
  number; the ones that the runtime can return are the doubles \<open>r\<close> with
  \<open>0 \<le> r < 1\<close>, and the arithmetic on them is that of doubles (\<open>js_times\<close>,
  \<open>js_plus\<close>).
\<close>

datatype api_call =
    GetChatSessions
  | CreateChatSession utf16
  | GetChatMessages number
  | SendMessage number utf16
  | DeleteChatSession number
  | UpdateSessionTitle number

record env =
  getChatSessions :: "jserror + ChatSession list"
  createChatSession :: "utf16 \<Rightarrow> jserror + ChatSession"
  getChatMessages :: "number \<Rightarrow> jserror + ApiMessage list"
  sendMessageApi :: "number \<Rightarrow> utf16 \<Rightarrow> jserror + unit"
  deleteChatSession :: "number \<Rightarrow> jserror + unit"
  updateSessionTitle :: "number \<Rightarrow> jserror + utf16"
  clock :: "nat \<Rightarrow> nat"
  uuidv4 :: "nat \<Rightarrow> string"
  Math_random :: "nat \<Rightarrow> real"

text \<open>
  The state of \<open>ChatProvider\<close> (\<open>chatHistories\<close>, \<open>currentChat\<close>, \<open>isLoading\<close>)
  together with what the run has done so far: the \<open>apiService\<close> calls made, the delays
  waited for with \<open>setTimeout\<close> (in milliseconds) and the number of readings of the
  clock, of \<open>uuidv4\<close> and of \<open>Math.random\<close>.
\<close>

record state =
  chatHistories :: "ChatHistory list"
  currentChat :: "ChatHistory option"
  isLoading :: bool
  calls :: "api_call list"
  delays :: "real list"
  clock_reads :: nat
  uuid_reads :: nat
  random_reads :: nat

definition setChatHistories :: "(ChatHistory list \<Rightarrow> ChatHistory list) \<Rightarrow> state \<Rightarrow> state" where
  "setChatHistories f st = st\<lparr>chatHistories := f (chatHistories st)\<rparr>"

definition setCurrentChat :: "ChatHistory option \<Rightarrow> state \<Rightarrow> state" where
  "setCurrentChat c st = st\<lparr>currentChat := c\<rparr>"

definition setIsLoading :: "bool \<Rightarrow> state \<Rightarrow> state" where
  "setIsLoading b st = st\<lparr>isLoading := b\<rparr>"

definition call :: "api_call \<Rightarrow> state \<Rightarrow> state" where
  "call c st = st\<lparr>calls := calls st @ [c]\<rparr>"

definition Date_now :: "env \<Rightarrow> state \<Rightarrow> nat \<times> state" where
  "Date_now e st = (clock e (clock_reads st), st\<lparr>clock_reads := Suc (clock_reads st)\<rparr>)"

definition new_Date :: "env \<Rightarrow> state \<Rightarrow> jsdate \<times> state" where
  "new_Date e st = (DateOfClock (clock e (clock_reads st)), st\<lparr>clock_reads := Suc (clock_reads st)\<rparr>)"

definition uuid :: "env \<Rightarrow> state \<Rightarrow> string \<times> state" where
  "uuid e st = (uuidv4 e (uuid_reads st), st\<lparr>uuid_reads := Suc (uuid_reads st)\<rparr>)"

definition random :: "env \<Rightarrow> state \<Rightarrow> real \<times> state" where
  "random e st = (Math_random e (random_reads st), st\<lparr>random_reads := Suc (random_reads st)\<rparr>)"

definition setTimeout :: "real \<Rightarrow> state \<Rightarrow> state" where
  "setTimeout ms st = st\<lparr>delays := delays st @ [ms]\<rparr>"

section \<open>The chat core: \<open>ChatProvider\<close>\<close>

text \<open>
  Each operation is a function of the environment, of \<open>isAuthenticated\<close> (which
  \<open>ChatProvider\<close> reads from \<open>useAuth\<close>) and of the state when the operation starts,
  and gives the state when its promise has settled. The values \<open>currentChat\<close> and
  \<open>chatHistories\<close> that the source reads from its closure are those of the state at
  the start; an update \<open>setChatHistories(prev => ...)\<close> is applied to the state of the
  moment. One operation runs at a time (no interleaving of two pending operations).
\<close>

definition convertApiMessage :: "ApiMessage \<Rightarrow> Message" where
  "convertApiMessage msg =
     \<lparr>msg_id = toString (api_id msg),
      msg_content = api_content msg,
      msg_role = (if is_user_message msg then user else assistant),
      msg_timestamp = DateOfString (api_timestamp msg)\<rparr>"

definition convertApiChatToLocal :: "ChatSession \<Rightarrow> ApiMessage list \<Rightarrow> ChatHistory" where
  "convertApiChatToLocal session msgs =
     \<lparr>chat_id = toString (session_id session),
      title = session_title session,
      messages = map convertApiMessage msgs,
      createdAt = DateOfString (created_at session),
      updatedAt = DateOfString (updated_at session)\<rparr>"

definition isLocal :: "string \<Rightarrow> bool" where
  "isLocal chatId = startsWith chatId ''local-''"

text \<open>\<open>loadChatSessions\<close>; \<open>histories[0]\<close> and \<open>sessions[0]\<close> are read only when the list is not empty.\<close>

definition loadChatSessions :: "env \<Rightarrow> bool \<Rightarrow> state \<Rightarrow> state" where
  "loadChatSessions e isAuthenticated st =
     (if \<not> isAuthenticated then setCurrentChat None (setChatHistories (\<lambda>prev. []) st)
      else
        let st1 = call GetChatSessions (setIsLoading True st)
        in case getChatSessions e of
             Inl err \<Rightarrow> setIsLoading False st1
           | Inr sessions \<Rightarrow>
               let histories = map (\<lambda>session. convertApiChatToLocal session []) sessions;
                   st2 = setChatHistories (\<lambda>prev. histories) st1
               in if length histories > 0 \<and> currentChat st = None then
                    let mostRecent = histories ! 0;
                        st3 = call (GetChatMessages (parseInt (chat_id mostRecent))) st2
                    in case getChatMessages e (parseInt (chat_id mostRecent)) of
                         Inl err \<Rightarrow> setIsLoading False st3
                       | Inr msgs \<Rightarrow>
                           setIsLoading False
                             (setCurrentChat (Some (convertApiChatToLocal (sessions ! 0) msgs)) st3)
                  else setIsLoading False st2)"

text \<open>
  The effect of \<open>ChatProvider\<close>: it runs on the first render and whenever
  \<open>isAuthenticated\<close> or \<open>loadChatSessions\<close> (hence \<open>currentChat\<close>) has changed. A run
  of the effect is an operation of its own here.
\<close>

definition authEffect :: "env \<Rightarrow> bool \<Rightarrow> state \<Rightarrow> state" where
  "authEffect e isAuthenticated st =
     (if isAuthenticated then loadChatSessions e isAuthenticated st
      else
        setCurrentChat
          (case currentChat st of
             None \<Rightarrow> None
           | Some prev \<Rightarrow> if isLocal (chat_id prev) then Some prev else None)
          (setChatHistories (filter (\<lambda>chat. isLocal (chat_id chat))) st))"

text \<open>The local session that \<open>createNewChat\<close> and \<open>sendMessage\<close> build for a visitor who is not signed in.\<close>

definition newLocalChat :: "env \<Rightarrow> state \<Rightarrow> ChatHistory \<times> state" where
  "newLocalChat e st =
     (let (ms, st1) = Date_now e st;
          (created, st2) = new_Date e st1;
          (updated, st3) = new_Date e st2
      in (\<lparr>chat_id = ''local-'' @ toString (int ms),
           title = (js ''New Conversation''),
           messages = [],
           createdAt = created,
           updatedAt = updated\<rparr>, st3))"

definition createNewChat :: "env \<Rightarrow> bool \<Rightarrow> state \<Rightarrow> state" where
  "createNewChat e isAuthenticated st =
     (if \<not> isAuthenticated then
        let (newChat, st1) = newLocalChat e st
        in setCurrentChat (Some newChat) (setChatHistories (\<lambda>prev. newChat # prev) st1)
      else
        let st1 = call (CreateChatSession (js ''New Conversation'')) st
        in case createChatSession e (js ''New Conversation'') of
             Inl err \<Rightarrow> st1
           | Inr session \<Rightarrow>
               let newChat = convertApiChatToLocal session []
               in setCurrentChat (Some newChat) (setChatHistories (\<lambda>prev. newChat # prev) st1))"

definition selectChat :: "env \<Rightarrow> bool \<Rightarrow> string \<Rightarrow> state \<Rightarrow> state" where
  "selectChat e isAuthenticated chatId st =
     (if isLocal chatId then
        (case find (\<lambda>h. chat_id h = chatId) (chatHistories st) of
           None \<Rightarrow> st
         | Some localChat \<Rightarrow> setCurrentChat (Some localChat) st)
      else if \<not> isAuthenticated then st
      else
        let sessionId = parseInt chatId;
            st1 = call (GetChatMessages sessionId) (setIsLoading True st)
        in case getChatMessages e sessionId of
             Inl err \<Rightarrow> setIsLoading False st1
           | Inr msgs \<Rightarrow>
               (case find (\<lambda>h. chat_id h = chatId) (chatHistories st) of
                  None \<Rightarrow> setIsLoading False st1
                | Some session \<Rightarrow>
                    setIsLoading False
                      (setCurrentChat (Some (session\<lparr>messages := map convertApiMessage msgs\<rparr>)) st1)))"

subsection \<open>\<open>sendMessage\<close>\<close>

text \<open>
  The three canned answers, code unit by code unit as the source file spells them (370,
  339 and 369 code units); a line break in a template literal is one line feed.
\<close>

definition mockResponse0 :: utf16 where
  "mockResponse0 =
     js ''Hello! I''
     @ [0x0027]
     @ js ''m Sakhi, your AI assistant! ''
     @ [0x00F0, 0x0178, 0x00A4, 0x2013, 0x00E2, 0x0153, 0x00A8, 0x000A, 0x000A]
     @ js ''**What I can help you with:**''
     @ [0x000A]
     @ js ''- Answer questions on various topics ''
     @ [0x00F0, 0x0178, 0x00A7, 0x00A0, 0x000A]
     @ js ''- Help with coding and programming ''
     @ [0x00F0, 0x0178, 0x2019, 0x00BB, 0x000A]
     @ js ''- Provide explanations and tutorials ''
     @ [0x00F0, 0x0178, 0x201C, 0x2013, 0x000A]
     @ js ''- Assist with creative writing and ideas ''
     @ [0x00F0, 0x0178, 0x2019, 0x00A1, 0x000A, 0x000A]
     @ js ''To unlock full features and save your conversations, conside''
     @ js ''r signing in! Your chats will be preserved across sessions. ''
     @ [0x00F0, 0x0178, 0x201D]"

definition mockResponse1 :: utf16 where
  "mockResponse1 =
     js ''Hi there! Welcome to Sakhi! ''
     @ [0x00F0, 0x0178, 0x0152, 0x0178]
     @ js '' I''
     @ [0x0027]
     @ js ''m here to help you with whatever you need.''
     @ [0x000A, 0x000A]
     @ js ''**I can assist with:**''
     @ [0x000A]
     @ js ''- General knowledge questions ''
     @ [0x00F0, 0x0178, 0x201C, 0x0161, 0x000A]
     @ js ''- Programming and technical help ''
     @ [0x00F0, 0x0178, 0x201D, 0x00A7, 0x000A]
     @ js ''- Creative writing and brainstorming ''
     @ [0x00F0, 0x0178, 0x017D, 0x00A8, 0x000A]
     @ js ''- Learning new concepts ''
     @ [0x00F0, 0x0178, 0x017D, 0x201C, 0x000A, 0x000A]
     @ js ''For the best experience, consider creating an account to sav''
     @ js ''e your conversation history! ''
     @ [0x00E2, 0x0153, 0x00A8]"

definition mockResponse2 :: utf16 where
  "mockResponse2 =
     js ''Hey! Great to meet you! I''
     @ [0x0027]
     @ js ''m Sakhi, your friendly AI companion. ''
     @ [0x00F0, 0x0178, 0x00A4, 0x2014, 0x000A, 0x000A]
     @ js ''**Here''
     @ [0x0027]
     @ js ''s what I can do:**''
     @ [0x000A]
     @ js ''- Answer complex questions with detailed explanations ''
     @ [0x00F0, 0x0178, 0x00A7, 0x000A]
     @ js ''- Help with problem-solving and analysis ''
     @ [0x00F0, 0x0178, 0x201D, 0x000A]
     @ js ''- Provide writing assistance and feedback ''
     @ [0x00E2, 0x0153, 0x00EF, 0x00B8, 0x000A]
     @ js ''- Code review and programming help ''
     @ [0x00F0, 0x0178, 0x2018, 0x00A8, 0x00E2, 0x20AC, 0x00F0, 0x0178, 0x2019, 0x00BB, 0x000A, 0x000A]
     @ js ''Create an account to save your chat history and unlock premi''
     @ js ''um features! ''
     @ [0x00F0, 0x0178, 0x0161, 0x20AC]"

definition mockResponses :: "utf16 list" where
  "mockResponses = [mockResponse0, mockResponse1, mockResponse2]"

text \<open>
  \<open>xs[Math.floor(x)]\<close>: the element at that index, or \<open>undefined\<close> (here \<open>None\<close>)
  outside the list.
\<close>

definition at_floor :: "'a list \<Rightarrow> real \<Rightarrow> 'a option" where
  "at_floor xs x =
     (if 0 \<le> \<lfloor>x\<rfloor> \<and> nat \<lfloor>x\<rfloor> < length xs then Some (xs ! nat \<lfloor>x\<rfloor>) else None)"

text \<open>
  Target resolution: the current session, or a session created on the spot. The result
  is \<open>None\<close> when the creation on the server threw, in which case \<open>sendMessage\<close> returns.
\<close>

definition resolveTarget :: "env \<Rightarrow> bool \<Rightarrow> state \<Rightarrow> ChatHistory option \<times> state" where
  "resolveTarget e isAuthenticated st =
     (case currentChat st of
        Some targetChat \<Rightarrow> (Some targetChat, st)
      | None \<Rightarrow>
          if isAuthenticated then
            let st1 = call (CreateChatSession (js ''New Conversation'')) st
            in case createChatSession e (js ''New Conversation'') of
                 Inl err \<Rightarrow> (None, st1)
               | Inr session \<Rightarrow>
                   let targetChat = convertApiChatToLocal session []
                   in (Some targetChat,
                       setCurrentChat (Some targetChat)
                         (setChatHistories (\<lambda>prev. targetChat # prev) st1))
          else
            let (targetChat, st1) = newLocalChat e st
            in (Some targetChat,
                setCurrentChat (Some targetChat)
                  (setChatHistories (\<lambda>prev. targetChat # prev) st1)))"

text \<open>The optimistic copy of the target: the user's message appended, the title of a first message.\<close>

definition optimisticChat :: "ChatHistory \<Rightarrow> utf16 \<Rightarrow> Message \<Rightarrow> jsdate \<Rightarrow> ChatHistory" where
  "optimisticChat targetChat content userMessage now =
     targetChat
       \<lparr>messages := messages targetChat @ [userMessage],
        title := (if length (messages targetChat) = 0 then slice0 content 30 @ js ''...''
                  else title targetChat),
        updatedAt := now\<rparr>"

text \<open>\<open>setCurrentChat(c); setChatHistories(prev => prev.map(h => h.id === targetChat.id ? c : h))\<close>.\<close>

definition publish :: "ChatHistory \<Rightarrow> ChatHistory \<Rightarrow> state \<Rightarrow> state" where
  "publish targetChat c st =
     setChatHistories (map (\<lambda>h. if chat_id h = chat_id targetChat then c else h))
       (setCurrentChat (Some c) st)"

text \<open>
  The body of the \<open>try\<close> block. Its result is the exception that reaches the \<open>catch\<close>
  of \<open>sendMessage\<close>, if any, with the state at that moment. This is the branch for a
  signed-in user and a session that is not local; a failure of the title request is caught
  inside.
\<close>

definition dispatchRemote ::
  "env \<Rightarrow> utf16 \<Rightarrow> ChatHistory \<Rightarrow> ChatHistory \<Rightarrow> state \<Rightarrow> jserror option \<times> state" where
  "dispatchRemote e content targetChat updatedChat st =
     (let sessionId = parseInt (chat_id targetChat);
          st1 = call (SendMessage sessionId content) st
      in case sendMessageApi e sessionId content of
           Inl err \<Rightarrow> (Some err, st1)
         | Inr sent \<Rightarrow>
             let st2 = call (GetChatMessages sessionId) st1
             in case getChatMessages e sessionId of
                  Inl err \<Rightarrow> (Some err, st2)
                | Inr updatedMessages \<Rightarrow>
                    let (now, st3) = new_Date e st2;
                        finalChat = updatedChat
                          \<lparr>messages := map convertApiMessage updatedMessages, updatedAt := now\<rparr>;
                        st4 = publish targetChat finalChat st3
                    in if length (messages targetChat) = 0 then
                         let st5 = call (UpdateSessionTitle sessionId) st4
                         in case updateSessionTitle e sessionId of
                              Inl titleError \<Rightarrow> (None, st5)
                            | Inr newTitle \<Rightarrow>
                                (None, publish targetChat (finalChat\<lparr>title := newTitle\<rparr>) st5)
                       else (None, st4))"

text \<open>The branch of the canned answers; nothing in it throws.\<close>

definition dispatchLocal ::
  "env \<Rightarrow> ChatHistory \<Rightarrow> ChatHistory \<Rightarrow> state \<Rightarrow> jserror option \<times> state" where
  "dispatchLocal e targetChat updatedChat st =
     (let (r1, st1) = random e st;
          randomResponse = at_floor mockResponses (js_times r1 (real (length mockResponses)));
          (r2, st2) = random e st1;
          st3 = setTimeout (js_plus 1000 (js_times r2 2000)) st2;
          (aiId, st4) = uuid e st3;
          (stamp, st5) = new_Date e st4;
          aiMessage = \<lparr>msg_id = aiId,
                       msg_content = (case randomResponse of Some answer \<Rightarrow> answer | None \<Rightarrow> js ''undefined''),
                       msg_role = assistant,
                       msg_timestamp = stamp\<rparr>;
          (now, st6) = new_Date e st5;
          finalChat = updatedChat\<lparr>messages := messages updatedChat @ [aiMessage], updatedAt := now\<rparr>
      in (None, publish targetChat finalChat st6))"

definition dispatch ::
  "env \<Rightarrow> bool \<Rightarrow> utf16 \<Rightarrow> ChatHistory \<Rightarrow> ChatHistory \<Rightarrow> state \<Rightarrow> jserror option \<times> state" where
  "dispatch e isAuthenticated content targetChat updatedChat st =
     (if isAuthenticated \<and> \<not> isLocal (chat_id targetChat)
      then dispatchRemote e content targetChat updatedChat st
      else dispatchLocal e targetChat updatedChat st)"

text \<open>The optimistic step: the user's message is built and shown before anything is sent.\<close>

definition optimisticStep :: "env \<Rightarrow> utf16 \<Rightarrow> ChatHistory \<Rightarrow> state \<Rightarrow> ChatHistory \<times> state" where
  "optimisticStep e content targetChat st =
     (let (userId, st1) = uuid e st;
          (stamp, st2) = new_Date e st1;
          userMessage = \<lparr>msg_id = userId, msg_content = content, msg_role = user,
                         msg_timestamp = stamp\<rparr>;
          (now, st3) = new_Date e st2;
          updatedChat = optimisticChat targetChat content userMessage now
      in (updatedChat, publish targetChat updatedChat st3))"

text \<open>\<open>sendMessage\<close>: target, optimistic step, dispatch, and the \<open>catch\<close> that reverts to the target.\<close>

definition sendMessage :: "env \<Rightarrow> bool \<Rightarrow> utf16 \<Rightarrow> state \<Rightarrow> state" where
  "sendMessage e isAuthenticated content st =
     (case resolveTarget e isAuthenticated st of
        (None, st1) \<Rightarrow> st1
      | (Some targetChat, st1) \<Rightarrow>
          let (updatedChat, st2) = optimisticStep e content targetChat st1
          in case dispatch e isAuthenticated content targetChat updatedChat st2 of
               (None, st3) \<Rightarrow> st3
             | (Some error, st3) \<Rightarrow> publish targetChat targetChat st3)"

definition deleteChat :: "env \<Rightarrow> bool \<Rightarrow> string \<Rightarrow> state \<Rightarrow> state" where
  "deleteChat e isAuthenticated chatId st =
     (let isCurrent = (case currentChat st of None \<Rightarrow> False | Some c \<Rightarrow> chat_id c = chatId);
          updatedHistories = filter (\<lambda>h. chat_id h \<noteq> chatId) (chatHistories st);
          nextChat = (if length updatedHistories > 0 then Some (updatedHistories ! 0) else None)
      in if isLocal chatId then
           let st1 = setChatHistories (\<lambda>prev. updatedHistories) st
           in if isCurrent then setCurrentChat nextChat st1 else st1
         else if \<not> isAuthenticated then st
         else
           let st1 = call (DeleteChatSession (parseInt chatId)) st
           in case deleteChatSession e (parseInt chatId) of
                Inl err \<Rightarrow> st1
              | Inr deleted \<Rightarrow>
                  let st2 = setChatHistories (\<lambda>prev. updatedHistories) st1
                  in if isCurrent then setCurrentChat nextChat st2 else st2)"

subsection \<open>Stages of a \<open>sendMessage\<close> run\<close>

text \<open>
  Names for what a run of \<open>sendMessage\<close> passes through: its target session
  (\<open>targetOf\<close>), the state immediately before the optimistic append (\<open>beforeAppend\<close>),
  the state right after it (\<open>afterAppend\<close>), and the exception that reaches the \<open>catch\<close>
  block, if any (\<open>caught\<close>).
\<close>

definition targetOf :: "env \<Rightarrow> bool \<Rightarrow> state \<Rightarrow> ChatHistory option" where
  "targetOf e isAuthenticated st = fst (resolveTarget e isAuthenticated st)"

definition beforeAppend :: "env \<Rightarrow> bool \<Rightarrow> state \<Rightarrow> state" where
  "beforeAppend e isAuthenticated st = snd (resolveTarget e isAuthenticated st)"

definition afterAppend :: "env \<Rightarrow> bool \<Rightarrow> utf16 \<Rightarrow> state \<Rightarrow> state" where
  "afterAppend e isAuthenticated content st =
     (case resolveTarget e isAuthenticated st of
        (None, st1) \<Rightarrow> st1
      | (Some targetChat, st1) \<Rightarrow> snd (optimisticStep e content targetChat st1))"

definition caught :: "env \<Rightarrow> bool \<Rightarrow> utf16 \<Rightarrow> state \<Rightarrow> jserror option" where
  "caught e isAuthenticated content st =
     (case resolveTarget e isAuthenticated st of
        (None, st1) \<Rightarrow> None
      | (Some targetChat, st1) \<Rightarrow>
          let (updatedChat, st2) = optimisticStep e content targetChat st1
          in fst (dispatch e isAuthenticated content targetChat updatedChat st2))"

section \<open>The request executor: \<open>ApiService\<close>\<close>

text \<open>
  A value that is \<open>null\<close>, \<open>undefined\<close> or a string: the field \<open>accessToken\<close>, the
  result of \<open>localStorage.getItem\<close>, a field read from a response.
\<close>

datatype jsvalue = Null | Undefined | Str string

text \<open>What \<open>if (v)\<close> and \<open>!!v\<close> test.\<close>

fun truthy :: "jsvalue \<Rightarrow> bool" where
  "truthy Null = False"
| "truthy Undefined = False"
| "truthy (Str s) = (s \<noteq> [])"

text \<open>The text of a value inside a template literal, and the text that \<open>localStorage.setItem\<close> stores.\<close>

fun template :: "jsvalue \<Rightarrow> string" where
  "template Null = ''null''"
| "template Undefined = ''undefined''"
| "template (Str s) = s"

text \<open>\<open>s.includes(sub)\<close>.\<close>

fun includes_str :: "string \<Rightarrow> string \<Rightarrow> bool" where
  "includes_str [] sub = (sub = [])"
| "includes_str (c # cs) sub = (startsWith (c # cs) sub \<or> includes_str cs sub)"

record AuthResponse =
  access_token :: string
  refresh_token :: string
  token_type :: string

record User =
  user_id :: int
  email :: string
  username :: string
  is_active :: bool
  is_verified :: bool
  user_created_at :: string

text \<open>
  The JSON bodies the executor meets: the interfaces its callers cast them to, the error
  body of the backend with its \<open>detail\<close> field, and any other object.
\<close>

datatype payload = AuthP AuthResponse | UserP User | DetailP string | OtherP

text \<open>
  What \<open>fetch\<close> does with a request: it rejects, or it resolves with a response, which
  has a status and a body; \<open>response.json()\<close> on that body rejects or gives a payload.
  The network answers a request knowing the requests made before it.
\<close>

record fetch_call =
  url :: string
  http_method :: "string option"
  authorization :: "string option"
  body :: "(string \<times> string) list option"

datatype fetch_result = Rejects jserror | Responds nat "jserror + payload"

type_synonym network = "fetch_call list \<Rightarrow> fetch_call \<Rightarrow> fetch_result"

text \<open>\<open>RequestInit\<close>, as the callers of \<open>request\<close> fill it: a method and a body to be stringified.\<close>

record RequestInit =
  init_method :: "string option"
  init_body :: "(string \<times> string) list option"

text \<open>
  The \<open>ApiService\<close> object with the \<open>localStorage\<close> it reads and writes, and the
  requests it has passed to \<open>fetch\<close> so far.
\<close>

record api_state =
  baseURL :: string
  accessToken :: jsvalue
  localStorage :: "string \<rightharpoonup> string"
  fetched :: "fetch_call list"

text \<open>
  The result of an asynchronous method: it returns, it throws, or it has not settled when
  the fuel is used up.
\<close>

datatype 'a outcome = Returns 'a | Throws jserror | Pending

definition getItem :: "api_state \<Rightarrow> string \<Rightarrow> jsvalue" where
  "getItem st k = (case localStorage st k of None \<Rightarrow> Null | Some v \<Rightarrow> Str v)"

definition setItem :: "string \<Rightarrow> jsvalue \<Rightarrow> api_state \<Rightarrow> api_state" where
  "setItem k v st = st\<lparr>localStorage := (localStorage st)(k \<mapsto> template v)\<rparr>"

definition removeItem :: "string \<Rightarrow> api_state \<Rightarrow> api_state" where
  "removeItem k st = st\<lparr>localStorage := (localStorage st)(k := None)\<rparr>"

text \<open>The constructor: \<open>accessToken\<close> starts as the stored access token.\<close>

definition ApiService :: "string \<Rightarrow> (string \<rightharpoonup> string) \<Rightarrow> api_state" where
  "ApiService base storage =
     \<lparr>baseURL = base,
      accessToken = (case storage ''access_token'' of None \<Rightarrow> Null | Some v \<Rightarrow> Str v),
      localStorage = storage,
      fetched = []\<rparr>"

definition logout :: "api_state \<Rightarrow> api_state" where
  "logout st = removeItem ''refresh_token'' (removeItem ''access_token'' (st\<lparr>accessToken := Null\<rparr>))"

definition fetch :: "network \<Rightarrow> fetch_call \<Rightarrow> api_state \<Rightarrow> fetch_result \<times> api_state" where
  "fetch net c st = (net (fetched st) c, st\<lparr>fetched := fetched st @ [c]\<rparr>)"

definition ok :: "nat \<Rightarrow> bool" where
  "ok status = (200 \<le> status \<and> status \<le> 299)"

text \<open>\<open>response.json()\<close>, returned without \<open>await\<close>: its rejection is the rejection of \<open>request\<close>.\<close>

definition json :: "jserror + payload \<Rightarrow> payload outcome" where
  "json b = (case b of Inl err \<Rightarrow> Throws err | Inr p \<Rightarrow> Returns p)"

text \<open>\<open>errorData.detail || `HTTP error! status: ${response.status}`\<close>, with \<open>errorData = {}\<close> when the body is not JSON.\<close>

definition errorMessage :: "jserror + payload \<Rightarrow> nat \<Rightarrow> string" where
  "errorMessage b status =
     (case b of
        Inr (DetailP detail) \<Rightarrow>
          if detail \<noteq> [] then detail else ''HTTP error! status: '' @ toString (int status)
      | _ \<Rightarrow> ''HTTP error! status: '' @ toString (int status))"

text \<open>The outer \<open>catch\<close> of \<open>request\<close>: a \<open>TypeError\<close> that mentions \<open>fetch\<close> becomes the connectivity error.\<close>

definition rethrow :: "api_state \<Rightarrow> jserror \<Rightarrow> jserror" where
  "rethrow st error =
     (case error of
        TypeError message \<Rightarrow>
          if includes_str message ''fetch''
          then Error (''Backend server is not running. Please check if the backend server is running on ''
                      @ baseURL st)
          else error
      | _ \<Rightarrow> error)"

definition field_access_token :: "payload \<Rightarrow> jsvalue" where
  "field_access_token p = (case p of AuthP r \<Rightarrow> Str (access_token r) | _ \<Rightarrow> Undefined)"

definition field_refresh_token :: "payload \<Rightarrow> jsvalue" where
  "field_refresh_token p = (case p of AuthP r \<Rightarrow> Str (refresh_token r) | _ \<Rightarrow> Undefined)"

text \<open>
  The \<open>config\<close> that \<open>request\<close> passes to \<open>fetch\<close>: the method and body of the
  options, and the \<open>Authorization\<close> header when there is an access token. (No caller
  passes headers of its own; \<open>Content-Type\<close> is constant and left out.)
\<close>

definition buildConfig :: "api_state \<Rightarrow> string \<Rightarrow> RequestInit \<Rightarrow> fetch_call" where
  "buildConfig st endpoint options =
     \<lparr>url = baseURL st @ endpoint,
      http_method = init_method options,
      authorization = (if truthy (accessToken st)
                       then Some (''Bearer '' @ template (accessToken st)) else None),
      body = init_body options\<rparr>"

text \<open>
  \<open>request\<close> and \<open>refreshToken\<close> call each other. The first argument is the fuel: the
  number of nested calls of \<open>request\<close> that may still start.
\<close>

fun request :: "nat \<Rightarrow> network \<Rightarrow> string \<Rightarrow> RequestInit \<Rightarrow> api_state \<Rightarrow> payload outcome \<times> api_state"
  and refreshToken :: "nat \<Rightarrow> network \<Rightarrow> api_state \<Rightarrow> unit outcome \<times> api_state" where
  "request 0 net endpoint options st = (Pending, st)"
| "request (Suc n) net endpoint options st =
     (let config = buildConfig st endpoint options;
          (response, st1) = fetch net config st
      in case response of
           Rejects error \<Rightarrow> (Throws (rethrow st1 error), st1)
         | Responds status content \<Rightarrow>
             if ok status then (json content, st1)
             else if status = 401 \<and> truthy (accessToken st1) then
               if truthy (getItem st1 ''refresh_token'') then
                 (case refreshToken n net st1 of
                    (Pending, st2) \<Rightarrow> (Pending, st2)
                  | (Throws refreshError, st2) \<Rightarrow>
                      (Throws (Error ''Authentication failed''), logout st2)
                  | (Returns refreshed, st2) \<Rightarrow>
                      let retry = config\<lparr>authorization :=
                                    Some (''Bearer '' @ template (accessToken st2))\<rparr>;
                          (retryResponse, st3) = fetch net retry st2
                      in case retryResponse of
                           Rejects error \<Rightarrow> (Throws (Error ''Authentication failed''), logout st3)
                         | Responds retryStatus retryContent \<Rightarrow>
                             if \<not> ok retryStatus
                             then (Throws (Error ''Authentication failed''), logout st3)
                             else (json retryContent, st3))
               else (Throws (Error ''Authentication required''), logout st1)
             else (Throws (Error (errorMessage content status)), st1))"
| "refreshToken n net st =
     (let refreshToken = getItem st ''refresh_token''
      in if \<not> truthy refreshToken then (Throws (Error ''No refresh token available''), st)
         else
           case request n net ''/auth/refresh''
                  \<lparr>init_method = Some ''POST'',
                   init_body = Some [(''refresh_token'', template refreshToken)]\<rparr> st of
             (Pending, st1) \<Rightarrow> (Pending, st1)
           | (Throws error, st1) \<Rightarrow> (Throws error, logout st1)
           | (Returns response, st1) \<Rightarrow>
               (Returns (),
                setItem ''refresh_token'' (field_refresh_token response)
                  (setItem ''access_token'' (field_access_token response)
                     (st1\<lparr>accessToken := field_access_token response\<rparr>))))"

definition getCurrentUser :: "nat \<Rightarrow> network \<Rightarrow> api_state \<Rightarrow> payload outcome \<times> api_state" where
  "getCurrentUser n net st = request n net ''/auth/me'' \<lparr>init_method = None, init_body = None\<rparr> st"

text \<open>\<open>ApiService.isAuthenticated\<close>.\<close>

definition hasToken :: "api_state \<Rightarrow> bool" where
  "hasToken st = truthy (accessToken st)"

section \<open>The authentication controller: \<open>AuthProvider\<close>\<close>

record auth_state =
  auth_user :: "payload option"
  auth_isLoading :: bool
  auth_error :: "string option"
  apiService :: api_state

text \<open>\<open>const isAuthenticated = !!user && apiService.isAuthenticated()\<close>.\<close>

definition isAuthenticated :: "auth_state \<Rightarrow> bool" where
  "isAuthenticated a = (auth_user a \<noteq> None \<and> hasToken (apiService a))"

text \<open>The state of \<open>AuthProvider\<close> at the first render.\<close>

definition AuthProvider :: "api_state \<Rightarrow> auth_state" where
  "AuthProvider api = \<lparr>auth_user = None, auth_isLoading = True, auth_error = None, apiService = api\<rparr>"

text \<open>\<open>checkAuth\<close>, the startup effect.\<close>

definition checkAuth :: "nat \<Rightarrow> network \<Rightarrow> auth_state \<Rightarrow> unit outcome \<times> auth_state" where
  "checkAuth n net a =
     (if hasToken (apiService a) then
        (case getCurrentUser n net (apiService a) of
           (Pending, api1) \<Rightarrow> (Pending, a\<lparr>apiService := api1\<rparr>)
         | (Returns userData, api1) \<Rightarrow>
             (Returns (), a\<lparr>auth_user := Some userData, apiService := api1, auth_isLoading := False\<rparr>)
         | (Throws err, api1) \<Rightarrow>
             (Returns (), a\<lparr>apiService := logout api1, auth_isLoading := False\<rparr>))
      else (Returns (), a\<lparr>auth_isLoading := False\<rparr>))"

section \<open>Sample data\<close>

text \<open>
  Concrete sessions, environments and states on which the theorems below are exercised:
  two sessions of the server (7, which has been opened, and 8, which has only been
  listed), a local session, a backend that answers every call and one that is down.
\<close>

definition firstMessage :: Message where
  "firstMessage = \<lparr>msg_id = ''1'', msg_content = js ''Where shall we go?'', msg_role = user,
                    msg_timestamp = DateOfString ''2024-05-01T10:00:00''\<rparr>"

definition chat7 :: ChatHistory where
  "chat7 = \<lparr>chat_id = ''7'', title = js ''Trip plans'', messages = [firstMessage],
             createdAt = DateOfString ''2024-05-01T10:00:00'',
             updatedAt = DateOfString ''2024-05-01T10:00:05''\<rparr>"

definition chat8 :: ChatHistory where
  "chat8 = \<lparr>chat_id = ''8'', title = js ''Recipes'', messages = [],
             createdAt = DateOfString ''2024-04-01T09:00:00'',
             updatedAt = DateOfString ''2024-04-01T09:30:00''\<rparr>"

definition localChat :: ChatHistory where
  "localChat = \<lparr>chat_id = ''local-1700000000000'', title = js ''New Conversation'', messages = [],
                 createdAt = DateOfClock 1700000000001, updatedAt = DateOfClock 1700000000002\<rparr>"

definition session7 :: ChatSession where
  "session7 = \<lparr>session_id = 7, session_title = js ''Trip plans'',
                created_at = ''2024-05-01T10:00:00'', updated_at = ''2024-05-01T10:00:05''\<rparr>"

definition session8 :: ChatSession where
  "session8 = \<lparr>session_id = 8, session_title = js ''Recipes'',
                created_at = ''2024-04-01T09:00:00'', updated_at = ''2024-04-01T09:30:00''\<rparr>"

definition session9 :: ChatSession where
  "session9 = \<lparr>session_id = 9, session_title = js ''New Conversation'',
                created_at = ''2024-06-01T08:00:00'', updated_at = ''2024-06-01T08:00:00''\<rparr>"

definition serverLog :: "ApiMessage list" where
  "serverLog =
     [\<lparr>api_id = 1, api_content = js ''Where shall we go?'', is_user_message = True,
       api_timestamp = ''2024-05-01T10:00:00''\<rparr>,
      \<lparr>api_id = 2, api_content = js ''Hello'', is_user_message = True,
       api_timestamp = ''2024-06-01T08:00:01''\<rparr>,
      \<lparr>api_id = 3, api_content = js ''Hello! How can I help?'', is_user_message = False,
       api_timestamp = ''2024-06-01T08:00:02''\<rparr>]"

definition backendUp :: env where
  "backendUp =
     \<lparr>getChatSessions = Inr [session7, session8],
      createChatSession = (\<lambda>t. Inr session9),
      getChatMessages = (\<lambda>n. Inr serverLog),
      sendMessageApi = (\<lambda>n c. Inr ()),
      deleteChatSession = (\<lambda>n. Inr ()),
      updateSessionTitle = (\<lambda>n. Inr (js ''Greeting'')),
      clock = (\<lambda>k. 1700000000000 + k),
      uuidv4 = (\<lambda>k. ''uuid-'' @ digits k),
      Math_random = (\<lambda>k. 1 / 2)\<rparr>"

definition backendDown :: env where
  "backendDown =
     \<lparr>getChatSessions = Inl (Error ''Backend server is not running''),
      createChatSession = (\<lambda>t. Inl (Error ''Backend server is not running'')),
      getChatMessages = (\<lambda>n. Inl (Error ''Backend server is not running'')),
      sendMessageApi = (\<lambda>n c. Inl (Error ''Backend server is not running'')),
      deleteChatSession = (\<lambda>n. Inl (Error ''Backend server is not running'')),
      updateSessionTitle = (\<lambda>n. Inl (Error ''Backend server is not running'')),
      clock = (\<lambda>k. 1700000000000 + k),
      uuidv4 = (\<lambda>k. ''uuid-'' @ digits k),
      Math_random = (\<lambda>k. 1 / 2)\<rparr>"

definition idle :: "ChatHistory list \<Rightarrow> ChatHistory option \<Rightarrow> state" where
  "idle directory current =
     \<lparr>chatHistories = directory, currentChat = current, isLoading = False, calls = [],
      delays = [], clock_reads = 0, uuid_reads = 0, random_reads = 0\<rparr>"

text \<open>
  For the executor: a client holding a stale access token and a refresh token, and three
  networks. The first answers 401 to everything, as a backend does whose refresh token
  has expired too; the second answers 500 to everything; the third accepts the refresh
  and then the repeated request.
\<close>

definition staleClient :: api_state where
  "staleClient =
     ApiService ''http://localhost:8000''
       [''access_token'' \<mapsto> ''stale'', ''refresh_token'' \<mapsto> ''r1'']"

definition always401 :: network where
  "always401 = (\<lambda>before c. Responds 401 (Inr (DetailP ''Could not validate credentials'')))"

definition always500 :: network where
  "always500 = (\<lambda>before c. Responds 500 (Inl (SyntaxError ''Unexpected token'')))"

definition refreshing :: network where
  "refreshing =
     (\<lambda>before c.
        if url c = ''http://localhost:8000/auth/refresh''
        then Responds 200 (Inr (AuthP \<lparr>access_token = ''fresh'', refresh_token = ''r2'',
                                        token_type = ''bearer''\<rparr>))
        else if authorization c = Some ''Bearer fresh'' then Responds 200 (Inr OtherP)
        else Responds 401 (Inr (DetailP ''Could not validate credentials'')))"

text \<open>The request that \<open>refreshToken\<close> sends for a client in state \<open>st\<close>.\<close>

definition refreshCall :: "api_state \<Rightarrow> fetch_call" where
  "refreshCall st =
     buildConfig st ''/auth/refresh''
       \<lparr>init_method = Some ''POST'',
        init_body = Some [(''refresh_token'', template (getItem st ''refresh_token''))]\<rparr>"

definition get :: RequestInit where
  "get = \<lparr>init_method = None, init_body = None\<rparr>"


text \<open>
  The requests a run of \<open>request\<close> with fuel \<open>n\<close> makes when every answer is 401: its own,
  then one refresh request after the other.
\<close>

fun callsMade :: "nat \<Rightarrow> api_state \<Rightarrow> string \<Rightarrow> RequestInit \<Rightarrow> fetch_call list" where
  "callsMade 0 st endpoint options = []"
| "callsMade (Suc n) st endpoint options =
     buildConfig st endpoint options # replicate n (refreshCall st)"

text \<open>
  An answer to the refresh request with which \<open>refreshToken\<close> throws at once: \<open>fetch\<close>
  rejects, or the status is neither 2xx nor 401, or the body of a 2xx answer is not JSON.
\<close>

definition refreshFails :: "fetch_result \<Rightarrow> bool" where
  "refreshFails answer =
     (case answer of
        Rejects error \<Rightarrow> True
      | Responds status content \<Rightarrow>
          status \<noteq> 401 \<and> (\<not> ok status \<or> (case content of Inl err \<Rightarrow> True | Inr p \<Rightarrow> False)))"

section \<open>The states the chat core is in\<close>

text \<open>
  \<open>ChatProvider\<close> starts with an empty directory, no current session and a visitor who
  is not signed in. From there the state changes by the effect, which runs when
  \<open>isAuthenticated\<close> changes (or again with the same value), and by the four operations;
  \<open>selectChat\<close> and \<open>deleteChat\<close> are called from the sidebar with the identifier of an
  entry of the directory.
\<close>

inductive reachable :: "bool \<Rightarrow> state \<Rightarrow> bool" where
  start: "reachable False (idle [] None)"
| effect: "reachable a st \<Longrightarrow> reachable a' (authEffect e a' st)"
| create: "reachable a st \<Longrightarrow> reachable a (createNewChat e a st)"
| select: "reachable a st \<Longrightarrow> chatId \<in> chat_id ` set (chatHistories st) \<Longrightarrow>
           reachable a (selectChat e a chatId st)"
| delete: "reachable a st \<Longrightarrow> chatId \<in> chat_id ` set (chatHistories st) \<Longrightarrow>
           reachable a (deleteChat e a chatId st)"
| send: "reachable a st \<Longrightarrow> reachable a (sendMessage e a content st)"

text \<open>Only local sessions are held: in the directory and as current session.\<close>

definition onlyLocal :: "state \<Rightarrow> bool" where
  "onlyLocal st =
     (list_all (\<lambda>h. isLocal (chat_id h)) (chatHistories st) \<and>
      (case currentChat st of None \<Rightarrow> True | Some c \<Rightarrow> isLocal (chat_id c)))"

text \<open>The state of a signed-in user who has just loaded the sessions of the server.\<close>

definition signedIn :: state where
  "signedIn = authEffect backendUp True (idle [] None)"

text \<open>The state of a visitor who has just created a chat.\<close>

definition visiting :: state where
  "visiting = createNewChat backendUp False (idle [] None)"

section \<open>Digits, \<open>toString\<close> and \<open>parseInt\<close>\<close>

text \<open>
  The identifier of a server session is the decimal text of its number: \<open>parseInt\<close>
  reads the number back, and such a text never starts with \<open>local-\<close>.
\<close>

lemma of_char_digit_char: "d < 10 \<Longrightarrow> (of_char (digit_char d) :: nat) = 48 + d"
proof -
  assume "d < 10"
  then have "d \<in> {0, 1, 2, 3, 4, 5, 6, 7, 8, 9}" by auto
  then show ?thesis by (auto simp: digit_char_def)
qed

lemma is_digit_digit_char: "d < 10 \<Longrightarrow> is_digit (digit_char d)"
  by (simp add: is_digit_def of_char_digit_char)

lemma digit_val_digit_char: "d < 10 \<Longrightarrow> digit_val (digit_char d) = d"
  by (simp add: digit_val_def of_char_digit_char)

lemma digits_all_digit: "\<forall>c \<in> set (digits n). is_digit c"
proof (induction n rule: digits.induct)
  case (1 n)
  show ?case
  proof (cases "n < 10")
    case True
    then show ?thesis by (subst digits.simps) (simp add: is_digit_digit_char)
  next
    case False
    then show ?thesis using 1 by (subst digits.simps) (simp add: is_digit_digit_char)
  qed
qed

lemma digits_nonempty: "digits n \<noteq> []"
  by (subst digits.simps) simp

lemma digits_value: "foldl (\<lambda>acc c. acc * 10 + digit_val c) 0 (digits n) = n"
proof (induction n rule: digits.induct)
  case (1 n)
  show ?case
  proof (cases "n < 10")
    case True
    then show ?thesis by (subst digits.simps) (simp add: digit_val_digit_char)
  next
    case False
    then show ?thesis using 1 by (subst digits.simps) (simp add: digit_val_digit_char)
  qed
qed

lemma parse_digits_digits: "parse_digits (digits n) = Num (int n)"
proof -
  have "takeWhile is_digit (digits n) = digits n"
    using digits_all_digit [of n] by (simp only: takeWhile_eq_all_conv)
  then show ?thesis
    unfolding parse_digits_def Let_def by (simp only: digits_nonempty digits_value if_False)
qed

lemma digits_hd: "\<exists>c cs. digits n = c # cs \<and> is_digit c"
  using digits_nonempty [of n] digits_all_digit [of n] by (cases "digits n") auto

lemma is_digit_facts: "is_digit c \<Longrightarrow> \<not> is_space c \<and> c \<noteq> CHR ''-'' \<and> c \<noteq> CHR ''+'' \<and> c \<noteq> CHR ''l''"
  by (auto simp: is_digit_def is_space_def)

lemma parseInt_digits: "parseInt (digits n) = Num (int n)"
proof -
  obtain c cs where d: "digits n = c # cs" "is_digit c" using digits_hd by blast
  have "parseInt (c # cs) = parse_digits (c # cs)"
    using is_digit_facts [OF d(2)] by (simp add: parseInt_def)
  then show ?thesis using d parse_digits_digits [of n] by simp
qed

lemma parseInt_toString: "parseInt (toString i) = Num i"
proof (cases "i < 0")
  case True
  have "\<not> is_space CHR ''-''" by (simp add: is_space_def)
  then have "parseInt (CHR ''-'' # digits (nat (- i))) = negate (parse_digits (digits (nat (- i))))"
    by (simp add: parseInt_def)
  then show ?thesis using True by (simp add: toString_def parse_digits_digits negate_def)
next
  case False
  then show ?thesis by (simp add: toString_def parseInt_digits)
qed

lemma toString_not_local: "\<not> isLocal (toString i)"
proof -
  have "\<not> startsWith (digits n) ''local-''" for n
  proof -
    obtain c cs where d: "digits n = c # cs" "is_digit c" using digits_hd by blast
    then show ?thesis using is_digit_facts [OF d(2)] by simp
  qed
  then show ?thesis by (simp add: isLocal_def toString_def)
qed



lemma local_prefix: "isLocal (''local-'' @ s)"
  by (simp add: isLocal_def)

lemma local_prefix_cons:
  "isLocal (CHR ''l'' # CHR ''o'' # CHR ''c'' # CHR ''a'' # CHR ''l'' # CHR ''-'' # s)"
  by (simp add: isLocal_def)

section \<open>Rounding to doubles\<close>

text \<open>
  Rounding never crosses a double: a double above a number is above its rounding, and a
  double below it is below its rounding. With that, the delay of the canned answer lies
  between 1000 and 3000 (3000 itself is reached, \<open>delay_3000\<close>) and the index of the answer
  is 0, 1 or 2.
\<close>

lemma round_even_le: "y \<le> of_int k \<Longrightarrow> round_even y \<le> k"
  unfolding round_even_def Let_def by (auto simp: floor_le_iff)

lemma round_even_ge: "of_int k \<le> y \<Longrightarrow> k \<le> round_even y"
  unfolding round_even_def Let_def by (auto simp: le_floor_iff) linarith+

lemma round_even_lt: "y < of_int k - 1 / 2 \<Longrightarrow> round_even y < k"
  unfolding round_even_def Let_def by (auto) linarith+

lemma round_even_int [simp]: "round_even (of_int k) = k"
  unfolding round_even_def Let_def by simp

lemma ulp_pos [simp]: "0 < ulp x"
  by (simp add: ulp_def)

lemma ulp_neq0 [simp]: "ulp x \<noteq> 0"
  by (simp add: ulp_def)

lemma ulp_nonneg [simp]: "0 \<le> ulp x"
  by (simp add: ulp_def)

lemma exponent_mono: "0 < x \<Longrightarrow> x \<le> c \<Longrightarrow> exponent x \<le> exponent c"
  unfolding exponent_def by (intro max.mono floor_mono) (simp_all)

lemma exponent_eq:
  "2 powr of_int e \<le> x \<Longrightarrow> x < 2 powr (of_int e + 1) \<Longrightarrow> - 1022 \<le> e \<Longrightarrow> exponent x = e"
proof -
  assume a: "2 powr of_int e \<le> x" "x < 2 powr (of_int e + 1)" "- 1022 \<le> e"
  have "0 < x" using a(1) by (smt (verit) powr_gt_zero)
  then have "\<lfloor>log 2 x\<rfloor> = e" using a by (simp add: floor_log_eq_powr_iff)
  then show ?thesis using a(3) by (simp add: exponent_def)
qed


lemma fl_pos: "0 < x \<Longrightarrow> fl x = of_int (round_even (x / ulp x)) * ulp x"
  by (simp add: fl_def)

lemma fl_nonneg: "0 \<le> x \<Longrightarrow> 0 \<le> fl x"
proof (cases "x = 0")
  case True
  then show ?thesis by (simp add: fl_def)
next
  case False
  assume "0 \<le> x"
  then have x: "0 < x" using False by simp
  have "of_int 0 \<le> x / ulp x" using x by (simp add: less_imp_le)
  then have "0 \<le> round_even (x / ulp x)" by (rule round_even_ge)
  then show ?thesis using x by (simp add: fl_pos)
qed

lemma ulp_ratio:
  assumes "0 < x" and "x \<le> c"
  shows "\<exists>n::nat. ulp c = 2 ^ n * ulp x"
proof -
  have le: "exponent x \<le> exponent c" using assms by (rule exponent_mono)
  define n where "n = nat (exponent c - exponent x)"
  have "of_int (exponent c) - 52 = real n + (of_int (exponent x) - 52)"
    using le by (simp add: n_def)
  then have "ulp c = 2 powr real n * ulp x"
    unfolding ulp_def by (simp only: powr_add)
  then show ?thesis by (auto simp: powr_realpow)
qed

text \<open>A double bounds the rounding of everything below it.\<close>

lemma fl_le_double:
  assumes "0 \<le> x" and "x \<le> c" and "0 < c" and "is_double c"
  shows "fl x \<le> c"
proof (cases "x = 0")
  case True
  then show ?thesis using assms(3) by (simp add: fl_def)
next
  case False
  then have x: "0 < x" using assms(1) by simp
  obtain n :: nat where n: "ulp c = 2 ^ n * ulp x" using ulp_ratio [OF x assms(2)] by blast
  define k where "k = round_even (c / ulp c)"
  have c: "c = of_int k * ulp c" using assms(3,4) by (simp add: is_double_def fl_pos k_def)
  have "c / ulp x = of_int (k * 2 ^ n)"
    by (subst c) (simp add: n)
  then have "x / ulp x \<le> of_int (k * 2 ^ n)"
    using assms(2) by (metis divide_right_mono less_eq_real_def ulp_pos)
  then have "round_even (x / ulp x) \<le> k * 2 ^ n" by (rule round_even_le)
  then have "real_of_int (round_even (x / ulp x)) \<le> real_of_int (k * 2 ^ n)"
    by (simp only: of_int_le_iff)
  then have "of_int (round_even (x / ulp x)) * ulp x \<le> of_int (k * 2 ^ n) * ulp x"
    by (rule mult_right_mono) simp
  also have "\<dots> = of_int k * ulp c" by (simp add: n)
  also have "\<dots> = c" using c by simp
  finally show ?thesis using x by (simp add: fl_pos)
qed

lemma is_doubleI:
  assumes "2 powr of_int e \<le> x" and "x < 2 powr (of_int e + 1)" and "- 1022 \<le> e"
      and "x = of_int k * 2 powr (of_int e - 52)"
  shows "is_double x"
proof -
  have e: "exponent x = e" using assms(1-3) by (rule exponent_eq)
  have x: "0 < x" using assms(1) by (smt (verit) powr_gt_zero)
  have u: "ulp x = 2 powr (of_int e - 52)" by (simp add: ulp_def e)
  have "x / ulp x = of_int k" using assms(4) u by simp
  then show ?thesis using x assms(4) u by (simp add: is_double_def fl_pos)
qed

lemma is_double_1000: "is_double 1000"
  by (rule is_doubleI [where e = 9 and k = "1000 * 2 ^ 43"]) (simp_all add: powr_minus field_simps)

lemma is_double_2000: "is_double 2000"
  by (rule is_doubleI [where e = 10 and k = "2000 * 2 ^ 42"]) (simp_all add: powr_minus field_simps)

lemma is_double_3000: "is_double 3000"
  by (rule is_doubleI [where e = 11 and k = "3000 * 2 ^ 41"]) (simp_all add: powr_minus field_simps)

lemma is_double_2: "is_double 2"
  by (rule is_doubleI [where e = 1 and k = "2 ^ 52"]) (simp_all add: powr_minus field_simps)

lemma is_double_half: "is_double (1 / 2)"
  by (rule is_doubleI [where e = "- 1" and k = "2 ^ 52"]) (simp_all add: powr_minus field_simps)

lemma is_double_3_2: "is_double (3 / 2)"
  by (rule is_doubleI [where e = 0 and k = "3 * 2 ^ 51"]) (simp_all add: powr_minus field_simps)


lemma fl_double: "is_double x \<Longrightarrow> fl x = x"
  by (simp add: is_double_def)

text \<open>A double is a lower bound of the rounding of everything above it.\<close>

lemma fl_ge_double:
  assumes "0 < c" and "c \<le> x" and "is_double c"
  shows "c \<le> fl x"
proof -
  have x: "0 < x" using assms(1,2) by simp
  have le: "exponent c \<le> exponent x" using assms(1,2) by (rule exponent_mono)
  show ?thesis
  proof (cases "exponent c = exponent x")
    case True
    then have u: "ulp c = ulp x" by (simp add: ulp_def)
    define k where "k = round_even (c / ulp c)"
    have c: "c = of_int k * ulp x" using assms(1,3) u by (simp add: is_double_def fl_pos k_def)
    have "of_int k = c / ulp x" by (subst c) simp
    also have "\<dots> \<le> x / ulp x" using assms(2) by (simp add: divide_right_mono)
    finally have "k \<le> round_even (x / ulp x)" by (rule round_even_ge)
    then have "real_of_int k \<le> real_of_int (round_even (x / ulp x))" by (simp only: of_int_le_iff)
    then have "of_int k * ulp x \<le> of_int (round_even (x / ulp x)) * ulp x"
      by (rule mult_right_mono) simp
    then show ?thesis using c x by (simp add: fl_pos)
  next
    case False
    then have lt: "exponent c < exponent x" using le by simp
    then have ex: "exponent x = \<lfloor>log 2 x\<rfloor>" unfolding exponent_def by linarith
    have "\<lfloor>log 2 c\<rfloor> \<le> exponent c" by (simp add: exponent_def)
    then have "\<lfloor>log 2 c\<rfloor> + 1 \<le> exponent x" using lt by simp
    then have "log 2 c < of_int (exponent x)" by linarith
    then have c: "c < 2 powr of_int (exponent x)"
      using assms(1) by (simp add: log_less_iff)
    have "2 powr of_int (exponent x) \<le> x"
      using x ex by (metis floor_log_eq_powr_iff one_less_numeral_iff semiring_norm(76))
    then have "2 powr of_int (exponent x) / ulp x \<le> x / ulp x"
      by (simp add: divide_right_mono)
    moreover have "2 powr of_int (exponent x) / ulp x = of_int (2 ^ 52)"
      unfolding ulp_def by (simp add: powr_diff)
    ultimately have "2 ^ 52 \<le> round_even (x / ulp x)" by (simp only: round_even_ge)
    then have "real_of_int (2 ^ 52) \<le> real_of_int (round_even (x / ulp x))"
      by (simp only: of_int_le_iff)
    then have "of_int (2 ^ 52) * ulp x \<le> of_int (round_even (x / ulp x)) * ulp x"
      by (rule mult_right_mono) simp
    moreover have "of_int (2 ^ 52) * ulp x = 2 powr of_int (exponent x)"
      unfolding ulp_def by (simp add: powr_diff)
    ultimately have "c \<le> of_int (round_even (x / ulp x)) * ulp x" using c by linarith
    then show ?thesis using x by (simp add: fl_pos)
  qed
qed

text \<open>The largest double below 1 is \<open>1 - 2^-53\<close>.\<close>

lemma double_below_1:
  assumes "0 \<le> r" and "r < 1" and "is_double r"
  shows "r \<le> 1 - 1 / 2 ^ 53"
proof (rule ccontr)
  assume "\<not> r \<le> 1 - 1 / 2 ^ 53"
  then have gt: "1 - 1 / 2 ^ 53 < r" by simp
  then have r: "0 < r" "1 / 2 \<le> r" by (simp_all add: field_simps)
  have e: "exponent r = - 1"
    using r assms(2) by (intro exponent_eq) (simp_all add: powr_minus field_simps)
  have u: "ulp r = 1 / 2 ^ 53" by (simp add: ulp_def e powr_minus field_simps)
  define k where "k = round_even (r / ulp r)"
  have "r = of_int k * ulp r" using assms(3) r(1) by (simp add: is_double_def fl_pos k_def)
  then have k: "r * 2 ^ 53 = of_int k" by (simp add: u)
  have "2 ^ 53 - 1 < r * 2 ^ 53" using gt by (simp add: field_simps)
  moreover have "r * 2 ^ 53 < 2 ^ 53" using assms(2) by simp
  ultimately have "of_int (2 ^ 53 - 1) < (of_int k :: real)" "(of_int k :: real) < of_int (2 ^ 53)"
    using k by simp_all
  then have "2 ^ 53 - 1 < k" "k < 2 ^ 53" by (simp_all only: of_int_less_iff)
  then show False by simp
qed

text \<open>Below \<open>3 - 3 * 2^-53\<close> no number rounds to 3.\<close>

lemma fl_below_3:
  assumes "0 \<le> x" and "x \<le> 3 - 3 / 2 ^ 53"
  shows "fl x < 3"
proof (cases "x < 2")
  case True
  have "fl x \<le> 2" using assms(1) True is_double_2 by (intro fl_le_double) simp_all
  then show ?thesis by simp
next
  case False
  then have x: "2 \<le> x" "0 < x" by simp_all
  have "x < 4" using assms(2) by (simp add: field_simps)
  then have e: "exponent x = 1" using x by (intro exponent_eq) simp_all
  have u: "ulp x = 1 / 2 ^ 51" by (simp add: ulp_def e powr_minus field_simps)
  have "x / ulp x \<le> 3 * 2 ^ 51 - 3 / 4" using assms(2) by (simp add: u field_simps)
  moreover have "(of_int (3 * 2 ^ 51) :: real) = 3 * 2 ^ 51" by simp
  ultimately have "x / ulp x < of_int (3 * 2 ^ 51) - 1 / 2" by linarith
  then have "round_even (x / ulp x) < 3 * 2 ^ 51" by (rule round_even_lt)
  then have "round_even (x / ulp x) \<le> 3 * 2 ^ 51 - 1" by simp
  then have "real_of_int (round_even (x / ulp x)) \<le> real_of_int (3 * 2 ^ 51 - 1)"
    by (simp only: of_int_le_iff)
  then have "of_int (round_even (x / ulp x)) * ulp x \<le> of_int (3 * 2 ^ 51 - 1) * ulp x"
    by (rule mult_right_mono) simp
  also have "\<dots> < 3" by (simp add: u field_simps)
  finally show ?thesis using x by (simp add: fl_pos)
qed

lemma delay_bounds:
  assumes "0 \<le> r" and "r < 1"
  shows "1000 \<le> js_plus 1000 (js_times r 2000) \<and> js_plus 1000 (js_times r 2000) \<le> 3000"
proof -
  have p: "0 \<le> js_times r 2000" unfolding js_times_def using assms(1) by (intro fl_nonneg) simp
  have "js_times r 2000 \<le> 2000"
    unfolding js_times_def using assms is_double_2000 by (intro fl_le_double) simp_all
  then have "js_plus 1000 (js_times r 2000) \<le> 3000"
    unfolding js_plus_def using p is_double_3000 by (intro fl_le_double) simp_all
  moreover have "1000 \<le> js_plus 1000 (js_times r 2000)"
    unfolding js_plus_def using p is_double_1000 by (intro fl_ge_double) simp_all
  ultimately show ?thesis by simp
qed

lemma index_bounds:
  assumes "0 \<le> r" and "r < 1" and "is_double r"
  shows "0 \<le> \<lfloor>js_times r 3\<rfloor> \<and> \<lfloor>js_times r 3\<rfloor> < 3"
proof -
  have "r \<le> 1 - 1 / 2 ^ 53" using assms by (rule double_below_1)
  then have "r * 3 \<le> 3 - 3 / 2 ^ 53" by simp
  then have "js_times r 3 < 3" unfolding js_times_def using assms(1) by (intro fl_below_3) simp_all
  moreover have "0 \<le> js_times r 3" unfolding js_times_def using assms(1) by (intro fl_nonneg) simp
  ultimately show ?thesis by (simp add: floor_less_iff)
qed

lemma round_even_down: "of_int k \<le> y \<Longrightarrow> y < of_int k + 1 / 2 \<Longrightarrow> round_even y = k"
proof -
  assume a: "of_int k \<le> y" "y < of_int k + 1 / 2"
  then have "\<lfloor>y\<rfloor> = k" by linarith
  then show ?thesis using a by (simp add: round_even_def)
qed

lemma round_even_tie_odd: "y = of_int k + 1 / 2 \<Longrightarrow> odd k \<Longrightarrow> round_even y = k + 1"
proof -
  assume a: "y = of_int k + 1 / 2" "odd k"
  then have "\<lfloor>y\<rfloor> = k" by linarith
  then show ?thesis using a by (simp add: round_even_def)
qed

lemma fl_eval:
  assumes "2 powr of_int e \<le> x" and "x < 2 powr (of_int e + 1)" and "- 1022 \<le> e"
      and "round_even (x / 2 powr (of_int e - 52)) = k"
  shows "fl x = of_int k * 2 powr (of_int e - 52)"
proof -
  have e: "exponent x = e" using assms(1-3) by (rule exponent_eq)
  have x: "0 < x" using assms(1) by (smt (verit) powr_gt_zero)
  show ?thesis using x assms(4) by (simp add: fl_pos ulp_def e)
qed

text \<open>With the largest reading of \<open>Math.random()\<close> the delay is 3000 exactly.\<close>

lemma delay_3000: "js_plus 1000 (js_times (1 - 1 / 2 ^ 53) 2000) = 3000"
proof -
  have 1: "js_times (1 - 1 / 2 ^ 53) 2000 = 2000 - 1 / 2 ^ 42"
  proof -
    have r: "round_even ((1 - 1 / 2 ^ 53) * 2000 / 2 powr (of_int 10 - 52)) = 2000 * 2 ^ 42 - 1"
      by (rule round_even_down) (simp_all add: powr_minus field_simps)
    have "fl ((1 - 1 / 2 ^ 53) * 2000) = of_int (2000 * 2 ^ 42 - 1) * 2 powr (of_int 10 - 52)"
      by (rule fl_eval [OF _ _ _ r]) (simp_all add: field_simps)
    then show ?thesis by (simp add: js_times_def powr_minus field_simps)
  qed
  have 2: "fl (1000 + (2000 - 1 / 2 ^ 42)) = 3000"
  proof -
    have r: "round_even ((1000 + (2000 - 1 / 2 ^ 42)) / 2 powr (of_int 11 - 52)) = (3000 * 2 ^ 41 - 1) + 1"
      by (rule round_even_tie_odd) (simp_all add: powr_minus field_simps)
    have "fl (1000 + (2000 - 1 / 2 ^ 42)) = of_int ((3000 * 2 ^ 41 - 1) + 1) * 2 powr (of_int 11 - 52)"
      by (rule fl_eval [OF _ _ _ r]) (simp_all add: field_simps)
    then show ?thesis by (simp add: powr_minus field_simps)
  qed
  show ?thesis unfolding js_plus_def by (simp only: 1 2)
qed

section \<open>Steps of the chat core\<close>

lemmas prims = setChatHistories_def setCurrentChat_def setIsLoading_def call_def Date_now_def
  new_Date_def uuid_def random_def setTimeout_def publish_def

lemma resolveTarget_some:
  assumes "resolveTarget e a st = (Some t, st1)"
  shows "currentChat st1 = Some t \<and> random_reads st1 = random_reads st \<and> delays st1 = delays st \<and>
         (currentChat st = Some t \<and> st1 = st \<or>
          currentChat st = None \<and> chatHistories st1 = t # chatHistories st \<and> messages t = [] \<and>
            (if a then calls st1 = calls st @ [CreateChatSession (js ''New Conversation'')] \<and> \<not> isLocal (chat_id t)
             else calls st1 = calls st \<and> isLocal (chat_id t)))"
  using assms
  by (auto simp: resolveTarget_def newLocalChat_def convertApiChatToLocal_def prims Let_def
        toString_not_local local_prefix_cons
      split: option.splits if_splits sum.splits prod.splits)

lemma optimisticStep_state:
  assumes "optimisticStep e content t st = (u, st')"
  shows "currentChat st' = Some u \<and>
     chatHistories st' = map (\<lambda>h. if chat_id h = chat_id t then u else h) (chatHistories st) \<and>
     calls st' = calls st \<and> delays st' = delays st \<and> random_reads st' = random_reads st \<and>
     chat_id u = chat_id t \<and>
     title u = (if messages t = [] then take 30 content @ js ''...'' else title t) \<and>
     (\<exists>userMessage. messages u = messages t @ [userMessage] \<and> msg_role userMessage = user \<and>
        msg_content userMessage = content)"
  using assms
  by (auto simp: optimisticStep_def optimisticChat_def slice0_def prims Let_def split: prod.splits)

lemma map_replace_twice:
  "chat_id c = chat_id t \<Longrightarrow>
   map (\<lambda>h. if chat_id h = chat_id t then d else h) (map (\<lambda>h. if chat_id h = chat_id t then c else h) xs)
   = map (\<lambda>h. if chat_id h = chat_id t then d else h) xs"
  by (induction xs) auto

lemma map_replace_ids:
  "chat_id c = chat_id t \<Longrightarrow>
   map chat_id (map (\<lambda>h. if chat_id h = chat_id t then c else h) xs) = map chat_id xs"
  by (induction xs) auto

lemma map_replace_same:
  "\<forall>h \<in> set xs. chat_id h = chat_id t \<longrightarrow> h = t \<Longrightarrow>
   map (\<lambda>h. if chat_id h = chat_id t then t else h) xs = xs"
  by (induction xs) auto

lemma dispatch_throws:
  assumes "dispatch e a content t u st = (Some err, st')"
  shows "a \<and> \<not> isLocal (chat_id t) \<and> chatHistories st' = chatHistories st \<and>
         currentChat st' = currentChat st \<and>
         (sendMessageApi e (parseInt (chat_id t)) content = Inl err \<or>
          getChatMessages e (parseInt (chat_id t)) = Inl err)"
  using assms
  by (auto simp: dispatch_def dispatchRemote_def dispatchLocal_def prims Let_def
      split: if_splits sum.splits prod.splits)

lemma dispatchRemote_returns:
  assumes "dispatchRemote e content t u st = (None, st')" and "chat_id u = chat_id t"
  shows "\<exists>serverMessages c. getChatMessages e (parseInt (chat_id t)) = Inr serverMessages \<and>
           currentChat st' = Some c \<and> chat_id c = chat_id t \<and>
           messages c = map convertApiMessage serverMessages \<and>
           chatHistories st' = map (\<lambda>h. if chat_id h = chat_id t then c else h) (chatHistories st)"
  using assms
  by (auto simp: dispatchRemote_def prims Let_def map_replace_twice
      split: if_splits sum.splits prod.splits)

lemma dispatchRemote_calls:
  "calls (snd (dispatchRemote e content t u st)) =
     calls st @
       (case sendMessageApi e (parseInt (chat_id t)) content of
          Inl err \<Rightarrow> [SendMessage (parseInt (chat_id t)) content]
        | Inr sent \<Rightarrow>
            (case getChatMessages e (parseInt (chat_id t)) of
               Inl err \<Rightarrow> [SendMessage (parseInt (chat_id t)) content, GetChatMessages (parseInt (chat_id t))]
             | Inr serverMessages \<Rightarrow>
                 [SendMessage (parseInt (chat_id t)) content, GetChatMessages (parseInt (chat_id t))]
                 @ (if messages t = [] then [UpdateSessionTitle (parseInt (chat_id t))] else [])))"
  by (auto simp: dispatchRemote_def prims Let_def split: if_splits sum.splits prod.splits)

lemma dispatchLocal_state:
  assumes "dispatchLocal e t u st = (r, st')"
  shows "r = None \<and> calls st' = calls st \<and>
         delays st' = delays st @ [js_plus 1000 (js_times (Math_random e (Suc (random_reads st))) 2000)] \<and>
         (\<exists>aiMessage c. currentChat st' = Some c \<and> chat_id c = chat_id u \<and> title c = title u \<and>
            messages c = messages u @ [aiMessage] \<and> msg_role aiMessage = assistant \<and>
            msg_content aiMessage =
              (case at_floor mockResponses (js_times (Math_random e (random_reads st)) 3) of
                 Some answer \<Rightarrow> answer | None \<Rightarrow> js ''undefined'') \<and>
            chatHistories st' = map (\<lambda>h. if chat_id h = chat_id t then c else h) (chatHistories st))"
  using assms
  by (auto simp: dispatchLocal_def prims Let_def mockResponses_def split: prod.splits)

lemma sendMessage_stages:
  assumes "resolveTarget e a st = (Some t, st1)"
      and "optimisticStep e content t st1 = (u, st2)"
      and "dispatch e a content t u st2 = (r, st3)"
  shows "sendMessage e a content st = (case r of None \<Rightarrow> st3 | Some err \<Rightarrow> publish t t st3)"
    and "caught e a content st = r"
    and "afterAppend e a content st = st2"
    and "targetOf e a st = Some t"
    and "beforeAppend e a st = st1"
  using assms
  by (simp_all add: sendMessage_def caught_def afterAppend_def targetOf_def beforeAppend_def
        split: option.splits)

lemma stages_exist:
  assumes "targetOf e a st = Some t"
  obtains st1 u st2 r st3 where
    "resolveTarget e a st = (Some t, st1)"
    "optimisticStep e content t st1 = (u, st2)"
    "dispatch e a content t u st2 = (r, st3)"
proof -
  obtain st1 where 1: "resolveTarget e a st = (Some t, st1)"
    using assms by (cases "resolveTarget e a st") (simp add: targetOf_def)
  obtain u st2 where 2: "optimisticStep e content t st1 = (u, st2)"
    by (cases "optimisticStep e content t st1")
  obtain r st3 where 3: "dispatch e a content t u st2 = (r, st3)"
    by (cases "dispatch e a content t u st2")
  show ?thesis using that 1 2 3 by blast
qed

lemma at_floor_random:
  assumes "0 \<le> r" and "r < 1" and "is_double r"
  shows "nat \<lfloor>js_times r 3\<rfloor> < 3 \<and>
         at_floor mockResponses (js_times r 3) = Some (mockResponses ! nat \<lfloor>js_times r 3\<rfloor>)"
proof -
  have f: "0 \<le> \<lfloor>js_times r 3\<rfloor>" "\<lfloor>js_times r 3\<rfloor> < 3"
    using index_bounds [OF assms] by simp_all
  then have "nat \<lfloor>js_times r 3\<rfloor> < 3" by linarith
  then show ?thesis using f by (simp add: at_floor_def mockResponses_def)
qed

lemma sendMessage_local:
  assumes "targetOf e a st = Some t" and "isLocal (chat_id t) \<or> \<not> a"
  shows "calls (sendMessage e a content st) = calls st \<and>
         delays (sendMessage e a content st) =
           delays st @ [js_plus 1000 (js_times (Math_random e (Suc (random_reads st))) 2000)] \<and>
         (\<exists>c userMessage aiMessage.
            currentChat (sendMessage e a content st) = Some c \<and> chat_id c = chat_id t \<and>
            messages c = messages t @ [userMessage, aiMessage] \<and>
            msg_content userMessage = content \<and> msg_role userMessage = user \<and>
            msg_role aiMessage = assistant \<and>
            msg_content aiMessage =
              (case at_floor mockResponses (js_times (Math_random e (random_reads st)) 3) of
                 Some answer \<Rightarrow> answer | None \<Rightarrow> js ''undefined''))"
proof -
  obtain st1 u st2 r st3 where
    s: "resolveTarget e a st = (Some t, st1)"
       "optimisticStep e content t st1 = (u, st2)"
       "dispatch e a content t u st2 = (r, st3)"
    using stages_exist [OF assms(1)] by blast
  have loc: "dispatchLocal e t u st2 = (r, st3)"
    using s(3) assms(2) by (auto simp: dispatch_def)
  have r1: "calls st1 = calls st" "random_reads st1 = random_reads st" "delays st1 = delays st"
    using resolveTarget_some [OF s(1)] assms(2) by (auto split: if_splits)
  note o = optimisticStep_state [OF s(2)]
  note d = dispatchLocal_state [OF loc]
  have fin: "sendMessage e a content st = st3"
    using sendMessage_stages(1) [OF s] d by simp
  show ?thesis using fin r1 o d by auto
qed

lemma createNewChat_anonymous:
  "calls (createNewChat e False st) = calls st \<and>
   (\<exists>c. currentChat (createNewChat e False st) = Some c \<and> isLocal (chat_id c) \<and>
      title c = js ''New Conversation'' \<and> messages c = [] \<and>
      chatHistories (createNewChat e False st) = c # chatHistories st)"
  by (simp add: createNewChat_def newLocalChat_def prims Let_def local_prefix_cons split: prod.splits)

lemma selectChat_local:
  "isLocal chatId \<Longrightarrow>
   calls (selectChat e a chatId st) = calls st \<and>
   chatHistories (selectChat e a chatId st) = chatHistories st \<and>
   currentChat (selectChat e a chatId st) =
     (case find (\<lambda>h. chat_id h = chatId) (chatHistories st) of
        None \<Rightarrow> currentChat st | Some c \<Rightarrow> Some c)"
  by (simp add: selectChat_def prims split: option.splits)

lemma selectChat_remote_calls:
  "\<not> isLocal chatId \<Longrightarrow>
   calls (selectChat e True chatId st) = calls st @ [GetChatMessages (parseInt chatId)]"
  by (simp add: selectChat_def prims Let_def split: sum.splits option.splits)

lemma deleteChat_calls:
  "calls (deleteChat e a chatId st) =
     (if \<not> isLocal chatId \<and> a then calls st @ [DeleteChatSession (parseInt chatId)] else calls st)"
  by (simp add: deleteChat_def prims Let_def split: sum.splits option.splits)

lemma selectChat_unauthenticated: "\<not> isLocal chatId \<Longrightarrow> selectChat e False chatId st = st"
  by (simp add: selectChat_def)

lemma deleteChat_unauthenticated: "\<not> isLocal chatId \<Longrightarrow> deleteChat e False chatId st = st"
  by (simp add: deleteChat_def Let_def)


lemma sendMessage_ids:
  assumes "currentChat st = Some t"
  shows "map chat_id (chatHistories (sendMessage e a content st)) = map chat_id (chatHistories st) \<and>
         map_option chat_id (currentChat (sendMessage e a content st)) = Some (chat_id t)"
proof -
  have t: "targetOf e a st = Some t" using assms(1) by (simp add: targetOf_def resolveTarget_def)
  obtain st1 u st2 r st3 where
    s: "resolveTarget e a st = (Some t, st1)"
       "optimisticStep e content t st1 = (u, st2)"
       "dispatch e a content t u st2 = (r, st3)"
    using stages_exist [OF t] by blast
  have st1: "st1 = st" using s(1) assms(1) by (simp add: resolveTarget_def)
  note o = optimisticStep_state [OF s(2)]
  have o2: "map chat_id (chatHistories st2) = map chat_id (chatHistories st)"
    using o st1 by (simp add: map_replace_ids del: map_map)
  show ?thesis
  proof (cases r)
    case (Some err)
    then have "sendMessage e a content st = publish t t st3"
      using sendMessage_stages(1) [OF s] by simp
    moreover have "chatHistories st3 = chatHistories st2" using dispatch_throws s(3) Some by blast
    ultimately show ?thesis using o2 by (simp add: prims map_replace_ids del: map_map)
  next
    case None
    then have fin: "sendMessage e a content st = st3"
      using sendMessage_stages(1) [OF s] by simp
    show ?thesis
    proof (cases "a \<and> \<not> isLocal (chat_id t)")
      case True
      then have "dispatchRemote e content t u st2 = (None, st3)"
        using s(3) None by (simp add: dispatch_def)
      from dispatchRemote_returns [OF this] o
      obtain c where "currentChat st3 = Some c" "chat_id c = chat_id t"
        "chatHistories st3 = map (\<lambda>h. if chat_id h = chat_id t then c else h) (chatHistories st2)"
        by auto
      then show ?thesis using fin o2 by (simp add: map_replace_ids del: map_map)
    next
      case False
      then have "dispatchLocal e t u st2 = (r, st3)" using s(3) by (auto simp: dispatch_def)
      from dispatchLocal_state [OF this] o
      obtain c where "currentChat st3 = Some c" "chat_id c = chat_id t"
        "chatHistories st3 = map (\<lambda>h. if chat_id h = chat_id t then c else h) (chatHistories st2)"
        by auto
      then show ?thesis using fin o2 by (simp add: map_replace_ids del: map_map)
    qed
  qed
qed

lemma selectChat_ids:
  "chatHistories (selectChat e a chatId st) = chatHistories st \<and>
   (\<forall>c. currentChat (selectChat e a chatId st) = Some c \<longrightarrow>
      currentChat st = Some c \<or> chat_id c = chatId \<and> chatId \<in> chat_id ` set (chatHistories st))"
  by (auto simp: selectChat_def prims Let_def find_Some_iff split: sum.splits option.splits)

lemma deleteChat_ids:
  "chatHistories (deleteChat e a chatId st) = chatHistories st \<or>
   chatHistories (deleteChat e a chatId st) = filter (\<lambda>h. chat_id h \<noteq> chatId) (chatHistories st)"
  by (auto simp: deleteChat_def prims Let_def split: sum.splits option.splits)

text \<open>After the effect of a sign-out, only local sessions are held.\<close>

lemma authEffect_signed_out:
  "calls (authEffect e False st) = calls st \<and>
   chatHistories (authEffect e False st) = filter (\<lambda>chat. isLocal (chat_id chat)) (chatHistories st) \<and>
   (\<forall>h \<in> set (chatHistories (authEffect e False st)). isLocal (chat_id h)) \<and>
   (\<forall>c. currentChat (authEffect e False st) = Some c \<longrightarrow> isLocal (chat_id c) \<and> currentChat st = Some c)"
  by (auto simp: authEffect_def prims split: option.splits if_splits)

lemmas fixtures = firstMessage_def chat7_def chat8_def localChat_def session7_def session8_def
  session9_def serverLog_def backendUp_def backendDown_def idle_def

lemmas evals = parseInt_def parse_digits_def is_digit_def is_space_def digit_val_def negate_def
  toString_def digits.simps digit_char_def isLocal_def slice0_def Let_def js_def

lemmas chat_ops = sendMessage_def resolveTarget_def optimisticStep_def optimisticChat_def
  dispatch_def dispatchRemote_def dispatchLocal_def newLocalChat_def targetOf_def beforeAppend_def
  afterAppend_def caught_def convertApiMessage_def convertApiChatToLocal_def createNewChat_def
  selectChat_def deleteChat_def loadChatSessions_def authEffect_def


lemma loadChatSessions_lists_without_messages:
  assumes "getChatSessions e = Inr sessions"
  shows "chatHistories (loadChatSessions e True st) =
           map (\<lambda>session. convertApiChatToLocal session []) sessions \<and>
         (\<forall>h \<in> set (chatHistories (loadChatSessions e True st)). messages h = [])"
  using assms
  by (auto simp: loadChatSessions_def prims Let_def convertApiChatToLocal_def split: sum.splits)


section \<open>Steps of the request executor\<close>

lemmas storage = getItem_def setItem_def removeItem_def logout_def fetch_def

lemma refreshCall_fetched [simp]: "refreshCall (st\<lparr>fetched := xs\<rparr>) = refreshCall st"
  by (simp add: refreshCall_def buildConfig_def getItem_def)

lemma request_always401:
  "truthy (accessToken st) \<Longrightarrow> truthy (getItem st ''refresh_token'') \<Longrightarrow>
   request n always401 endpoint options st =
     (Pending, st\<lparr>fetched := fetched st @ callsMade n st endpoint options\<rparr>)"
proof (induction n arbitrary: endpoint options st)
  case 0
  then show ?case by simp
next
  case (Suc n)
  let ?c = "buildConfig st endpoint options"
  let ?st1 = "st\<lparr>fetched := fetched st @ [?c]\<rparr>"
  let ?opts = "\<lparr>init_method = Some ''POST'',
                 init_body = Some [(''refresh_token'', template (getItem st ''refresh_token''))]\<rparr>"
  have t1: "truthy (accessToken ?st1)" "truthy (getItem ?st1 ''refresh_token'')"
    using Suc.prems by (simp_all add: getItem_def)
  have g: "getItem ?st1 ''refresh_token'' = getItem st ''refresh_token''" by (simp add: getItem_def)
  have inner: "request n always401 ''/auth/refresh'' ?opts ?st1 =
                 (Pending, ?st1\<lparr>fetched := fetched ?st1 @ callsMade n ?st1 ''/auth/refresh'' ?opts\<rparr>)"
    using Suc.IH [OF t1] .
  have cm: "callsMade n ?st1 ''/auth/refresh'' ?opts = replicate n (refreshCall st)"
    by (cases n) (simp_all add: refreshCall_def buildConfig_def getItem_def)
  have rt: "refreshToken n always401 ?st1 =
              (Pending, st\<lparr>fetched := fetched st @ ?c # replicate n (refreshCall st)\<rparr>)"
    using t1 inner cm g by simp
  show ?case
    using Suc.prems t1 rt by (simp add: fetch_def always401_def ok_def Let_def)
qed

lemma getItem_fetched [simp]: "getItem (st\<lparr>fetched := xs\<rparr>) k = getItem st k"
  by (simp add: getItem_def)

lemma buildConfig_fetched [simp]: "buildConfig (st\<lparr>fetched := xs\<rparr>) endpoint options = buildConfig st endpoint options"
  by (simp add: buildConfig_def)

lemma logout_logout [simp]: "logout (logout st) = logout st"
  by (simp add: logout_def removeItem_def)

lemma logout_clears:
  "accessToken (logout st) = Null \<and> getItem (logout st) ''access_token'' = Null \<and>
   getItem (logout st) ''refresh_token'' = Null \<and> fetched (logout st) = fetched st"
  by (simp add: logout_def removeItem_def getItem_def)

lemma refresh_request:
  "request (Suc n) net ''/auth/refresh''
           \<lparr>init_method = Some ''POST'',
            init_body = Some [(''refresh_token'', template (getItem st ''refresh_token''))]\<rparr> st =
         (case net (fetched st) (refreshCall st) of
            Rejects error \<Rightarrow>
              (Throws (rethrow st error), st\<lparr>fetched := fetched st @ [refreshCall st]\<rparr>)
          | Responds status content \<Rightarrow>
              if ok status then (json content, st\<lparr>fetched := fetched st @ [refreshCall st]\<rparr>)
              else if status = 401 \<and> truthy (accessToken st) then
                request (Suc n) net ''/auth/refresh''
                  \<lparr>init_method = Some ''POST'',
                   init_body = Some [(''refresh_token'', template (getItem st ''refresh_token''))]\<rparr> st
              else (Throws (Error (errorMessage content status)),
                    st\<lparr>fetched := fetched st @ [refreshCall st]\<rparr>))"
  by (auto simp: refreshCall_def [symmetric] fetch_def Let_def rethrow_def
      split: fetch_result.splits jserror.splits)

lemma request_refresh_fails:
  assumes tok: "truthy (accessToken st)" and rtok: "truthy (getItem st ''refresh_token'')"
      and first: "net (fetched st) (buildConfig st endpoint options) = Responds 401 content"
      and answer: "refreshFails (net (fetched st @ [buildConfig st endpoint options]) (refreshCall st))"
  shows "request (Suc (Suc n)) net endpoint options st =
           (Throws (Error ''Authentication failed''),
            logout (st\<lparr>fetched := fetched st @ [buildConfig st endpoint options, refreshCall st]\<rparr>))"
proof -
  let ?c = "buildConfig st endpoint options"
  let ?st1 = "st\<lparr>fetched := fetched st @ [?c]\<rparr>"
  let ?st2 = "st\<lparr>fetched := fetched st @ [?c, refreshCall st]\<rparr>"
  have a: "net (fetched ?st1) (refreshCall ?st1) = net (fetched st @ [?c]) (refreshCall st)" by simp
  have "\<exists>err. request (Suc n) net ''/auth/refresh''
           \<lparr>init_method = Some ''POST'',
            init_body = Some [(''refresh_token'', template (getItem ?st1 ''refresh_token''))]\<rparr> ?st1
          = (Throws err, ?st2)"
    using answer
    by (subst refresh_request)
       (auto simp: refreshFails_def json_def split: fetch_result.splits sum.splits)
  then obtain err where "refreshToken (Suc n) net ?st1 = (Throws err, logout ?st2)"
    using rtok by (auto simp del: request.simps)
  then show ?thesis
    using tok rtok first by (simp add: fetch_def Let_def ok_def del: refreshToken.simps)
qed

lemma request_refresh_succeeds:
  assumes tok: "truthy (accessToken st)" and rtok: "truthy (getItem st ''refresh_token'')"
      and first: "net (fetched st) (buildConfig st endpoint options) = Responds 401 content"
      and answer: "net (fetched st @ [buildConfig st endpoint options]) (refreshCall st) =
                     Responds status (Inr p)" "ok status"
      and retry: "retry = (buildConfig st endpoint options)
                    \<lparr>authorization := Some (''Bearer '' @ template (field_access_token p))\<rparr>"
      and st3: "st3 = setItem ''refresh_token'' (field_refresh_token p)
                  (setItem ''access_token'' (field_access_token p)
                     (st\<lparr>accessToken := field_access_token p,
                         fetched := fetched st @ [buildConfig st endpoint options, refreshCall st, retry]\<rparr>))"
  shows "request (Suc (Suc n)) net endpoint options st =
           (case net (fetched st @ [buildConfig st endpoint options, refreshCall st]) retry of
              Rejects error \<Rightarrow> (Throws (Error ''Authentication failed''), logout st3)
            | Responds retryStatus retryContent \<Rightarrow>
                if ok retryStatus then (json retryContent, st3)
                else (Throws (Error ''Authentication failed''), logout st3))"
proof -
  let ?c = "buildConfig st endpoint options"
  let ?st1 = "st\<lparr>fetched := fetched st @ [?c]\<rparr>"
  let ?st2 = "st\<lparr>fetched := fetched st @ [?c, refreshCall st]\<rparr>"
  have a: "net (fetched ?st1) (refreshCall ?st1) = Responds status (Inr p)" using answer by simp
  have "request (Suc n) net ''/auth/refresh''
           \<lparr>init_method = Some ''POST'',
            init_body = Some [(''refresh_token'', template (getItem ?st1 ''refresh_token''))]\<rparr> ?st1
          = (Returns p, ?st2)"
    using answer(2) a by (subst refresh_request) (simp add: json_def)
  then have "refreshToken (Suc n) net ?st1 =
               (Returns (),
                setItem ''refresh_token'' (field_refresh_token p)
                  (setItem ''access_token'' (field_access_token p)
                     (?st2\<lparr>accessToken := field_access_token p\<rparr>)))"
    using rtok by (simp del: request.simps)
  then show ?thesis
    using tok rtok first retry st3
    by (simp add: fetch_def Let_def ok_def setItem_def logout_def removeItem_def
          del: refreshToken.simps split: fetch_result.splits)
qed

text \<open>
  The refresh as it is meant to work: the request is answered 401, the refresh is accepted,
  the repeated request succeeds; three requests in all, and the new tokens are stored.
\<close>

lemma request_refresh_transparent:
  "request 2 refreshing ''/chat/sessions'' get staleClient =
     (Returns OtherP,
      \<lparr>baseURL = ''http://localhost:8000'',
       accessToken = Str ''fresh'',
       localStorage = [''access_token'' \<mapsto> ''fresh'', ''refresh_token'' \<mapsto> ''r2''],
       fetched =
         [buildConfig staleClient ''/chat/sessions'' get,
          refreshCall staleClient,
          (buildConfig staleClient ''/chat/sessions'' get)\<lparr>authorization := Some ''Bearer fresh''\<rparr>]\<rparr>)"
proof -
  have t: "truthy (accessToken staleClient)" "truthy (getItem staleClient ''refresh_token'')"
    by (simp_all add: staleClient_def ApiService_def getItem_def)
  have n1: "refreshing (fetched staleClient) (buildConfig staleClient ''/chat/sessions'' get) =
              Responds 401 (Inr (DetailP ''Could not validate credentials''))"
    by (simp add: refreshing_def buildConfig_def staleClient_def ApiService_def get_def)
  have n2: "refreshing (fetched staleClient @ [buildConfig staleClient ''/chat/sessions'' get])
              (refreshCall staleClient) =
              Responds 200 (Inr (AuthP \<lparr>access_token = ''fresh'', refresh_token = ''r2'',
                                         token_type = ''bearer''\<rparr>))"
    by (simp add: refreshing_def refreshCall_def buildConfig_def staleClient_def ApiService_def)
  have "request (Suc (Suc 0)) refreshing ''/chat/sessions'' get staleClient =
     (Returns OtherP,
      \<lparr>baseURL = ''http://localhost:8000'',
       accessToken = Str ''fresh'',
       localStorage = [''access_token'' \<mapsto> ''fresh'', ''refresh_token'' \<mapsto> ''r2''],
       fetched =
         [buildConfig staleClient ''/chat/sessions'' get,
          refreshCall staleClient,
          (buildConfig staleClient ''/chat/sessions'' get)\<lparr>authorization := Some ''Bearer fresh''\<rparr>]\<rparr>)"
    by (subst request_refresh_succeeds [OF t n1 n2 _ refl refl])
       (simp_all add: ok_def field_access_token_def field_refresh_token_def refreshing_def
          buildConfig_def json_def setItem_def staleClient_def ApiService_def get_def fun_upd_twist)
  then show ?thesis by (simp add: numeral_2_eq_2)
qed

section \<open>Reachable states\<close>

lemma onlyLocal_filter:
  "onlyLocal st \<Longrightarrow> list_all (\<lambda>h. isLocal (chat_id h)) (filter P (chatHistories st))"
  by (auto simp: onlyLocal_def list_all_iff)

lemma onlyLocal_authEffect: "onlyLocal (authEffect e False st)"
  by (auto simp: onlyLocal_def authEffect_def prims list_all_iff split: option.splits)

lemma onlyLocal_createNewChat: "onlyLocal st \<Longrightarrow> onlyLocal (createNewChat e False st)"
  by (auto simp: onlyLocal_def createNewChat_def newLocalChat_def prims Let_def local_prefix_cons
      split: prod.splits option.splits)

lemma onlyLocal_selectChat: "onlyLocal st \<Longrightarrow> onlyLocal (selectChat e False chatId st)"
  by (auto simp: onlyLocal_def selectChat_def prims list_all_iff find_Some_iff
      split: option.splits)

lemma nth0_mem: "xs \<noteq> [] \<Longrightarrow> xs ! 0 \<in> set xs"
  by (cases xs) simp_all

lemma onlyLocal_deleteChat: "onlyLocal st \<Longrightarrow> onlyLocal (deleteChat e False chatId st)"
  by (auto simp: onlyLocal_def deleteChat_def prims Let_def list_all_iff
      split: option.splits dest!: nth0_mem)

lemma onlyLocal_sendMessage:
  assumes "onlyLocal st"
  shows "onlyLocal (sendMessage e False content st)"
proof -
  have "\<exists>t. targetOf e False st = Some t"
    by (auto simp: targetOf_def resolveTarget_def newLocalChat_def prims Let_def
        split: option.splits prod.splits)
  then obtain t where t: "targetOf e False st = Some t" by blast
  obtain st1 u st2 r st3 where
    s: "resolveTarget e False st = (Some t, st1)"
       "optimisticStep e content t st1 = (u, st2)"
       "dispatch e False content t u st2 = (r, st3)"
    using stages_exist [OF t] by blast
  note r1 = resolveTarget_some [OF s(1)]
  have lt: "isLocal (chat_id t)" using r1 assms by (auto simp: onlyLocal_def)
  have d1: "list_all (\<lambda>h. isLocal (chat_id h)) (chatHistories st1)"
    using r1 assms lt by (auto simp: onlyLocal_def)
  note o = optimisticStep_state [OF s(2)]
  have loc: "dispatchLocal e t u st2 = (r, st3)" using s(3) by (simp add: dispatch_def)
  note d = dispatchLocal_state [OF loc]
  have fin: "sendMessage e False content st = st3"
    using sendMessage_stages(1) [OF s] d by simp
  obtain c where c: "currentChat st3 = Some c" "chat_id c = chat_id u"
    "chatHistories st3 = map (\<lambda>h. if chat_id h = chat_id t then c else h) (chatHistories st2)"
    using d by blast
  have "list_all (\<lambda>h. isLocal (chat_id h)) (chatHistories st3)"
    using c o d1 lt by (auto simp: list_all_iff)
  then show ?thesis using fin c o lt by (simp add: onlyLocal_def)
qed

text \<open>While nobody is signed in, only local sessions are held.\<close>

lemma reachable_onlyLocal: "reachable a st \<Longrightarrow> a \<or> onlyLocal st"
proof (induction rule: reachable.induct)
  case start
  then show ?case by (simp add: onlyLocal_def idle_def)
next
  case (effect a st a' e)
  show ?case by (cases a') (simp_all add: onlyLocal_authEffect)
next
  case (create a st e)
  show ?case
  proof (cases a)
    case True
    then show ?thesis by simp
  next
    case False
    then show ?thesis using create.IH by (simp add: onlyLocal_createNewChat)
  qed
next
  case (select a st chatId e)
  show ?case
  proof (cases a)
    case True
    then show ?thesis by simp
  next
    case False
    then show ?thesis using select.IH by (simp add: onlyLocal_selectChat)
  qed
next
  case (delete a st chatId e)
  show ?case
  proof (cases a)
    case True
    then show ?thesis by simp
  next
    case False
    then show ?thesis using delete.IH by (simp add: onlyLocal_deleteChat)
  qed
next
  case (send a st e content)
  show ?case
  proof (cases a)
    case True
    then show ?thesis by simp
  next
    case False
    then show ?thesis using send.IH by (simp add: onlyLocal_sendMessage)
  qed
qed

lemma sendMessage_target_calls:
  assumes "targetOf e True st = Some t" and "\<not> isLocal (chat_id t)"
  shows "\<exists>more. calls (sendMessage e True content st) =
           calls (beforeAppend e True st) @ SendMessage (parseInt (chat_id t)) content # more"
proof -
  obtain st1 u st2 r st3 where
    s: "resolveTarget e True st = (Some t, st1)"
       "optimisticStep e content t st1 = (u, st2)"
       "dispatch e True content t u st2 = (r, st3)"
    using stages_exist [OF assms(1)] by blast
  have b: "beforeAppend e True st = st1" using sendMessage_stages(5) [OF s] .
  have c2: "calls st2 = calls st1" using optimisticStep_state [OF s(2)] by simp
  have rem: "dispatchRemote e content t u st2 = (r, st3)"
    using s(3) assms(2) by (simp add: dispatch_def)
  have "calls (sendMessage e True content st) = calls st3"
    using sendMessage_stages(1) [OF s] by (simp add: prims split: option.splits)
  also have "\<dots> = calls (snd (dispatchRemote e content t u st2))" using rem by simp
  finally have "calls (sendMessage e True content st) =
     calls st1 @
       (case sendMessageApi e (parseInt (chat_id t)) content of
          Inl err \<Rightarrow> [SendMessage (parseInt (chat_id t)) content]
        | Inr sent \<Rightarrow>
            (case getChatMessages e (parseInt (chat_id t)) of
               Inl err \<Rightarrow> [SendMessage (parseInt (chat_id t)) content, GetChatMessages (parseInt (chat_id t))]
             | Inr serverMessages \<Rightarrow>
                 [SendMessage (parseInt (chat_id t)) content, GetChatMessages (parseInt (chat_id t))]
                 @ (if messages t = [] then [UpdateSessionTitle (parseInt (chat_id t))] else [])))"
    by (simp only: dispatchRemote_calls c2)
  then show ?thesis using b by (auto split: sum.splits)
qed

lemma signedIn_eval:
  "signedIn = \<lparr>chatHistories = [convertApiChatToLocal session7 [], chat8],
      currentChat = Some (convertApiChatToLocal session7 serverLog), isLoading = False,
      calls = [GetChatSessions, GetChatMessages (Num 7)],
      delays = [], clock_reads = 0, uuid_reads = 0, random_reads = 0\<rparr>"
  by (simp add: signedIn_def chat_ops fixtures prims evals)

lemma visiting_eval:
  "visiting = \<lparr>chatHistories = [localChat], currentChat = Some localChat, isLoading = False,
      calls = [], delays = [], clock_reads = 3, uuid_reads = 0, random_reads = 0\<rparr>"
  by (simp add: visiting_def chat_ops fixtures prims evals)

text \<open>The canned answers have the lengths of the source's strings.\<close>

lemma mockResponses_lengths:
  "length mockResponse0 = 370 \<and> length mockResponse1 = 339 \<and> length mockResponse2 = 369"
  by (simp add: mockResponse0_def mockResponse1_def mockResponse2_def js_def)


text \<open>While the profile request of the startup check throws, the check logs out.\<close>

lemma checkAuth_profile_throws:
  "hasToken api \<Longrightarrow> getCurrentUser n net api = (Throws err, api1) \<Longrightarrow>
   fst (checkAuth n net (AuthProvider api)) = Returns () \<and>
   \<not> isAuthenticated (snd (checkAuth n net (AuthProvider api))) \<and>
   auth_user (snd (checkAuth n net (AuthProvider api))) = None \<and>
   accessToken (apiService (snd (checkAuth n net (AuthProvider api)))) = Null \<and>
   localStorage (apiService (snd (checkAuth n net (AuthProvider api)))) ''access_token'' = None \<and>
   localStorage (apiService (snd (checkAuth n net (AuthProvider api)))) ''refresh_token'' = None"
  by (simp add: isAuthenticated_def hasToken_def checkAuth_def AuthProvider_def logout_def
        removeItem_def)

section \<open>The claims\<close>

text \<open>
  C1. The claim: a request that is answered 401 while an access token is attached and a
  refresh token is stored leads to exactly one refresh call and at most one retry, never
  to a loop, and a failed refresh empties the token store and throws an authentication
  error. The code does this as long as the refresh request is not itself answered 401
  (\<open>request_refresh_fails\<close>, \<open>request_refresh_succeeds\<close> above). But \<open>refreshToken\<close>
  sends its request through \<open>request\<close>, which treats a 401 to the refresh request like any
  other 401 and calls \<open>refreshToken\<close> again. Against a backend that answers 401 to the
  request and to every refresh request, \<open>request\<close> never settles, whatever the fuel: with
  fuel \<open>n + 1\<close> it has already sent \<open>n\<close> refresh requests, and both tokens are still
  stored.
\<close>

theorem request_refresh_loop:
  "fst (request n always401 ''/chat/sessions'' get staleClient) = Pending \<and>
   filter (\<lambda>c. url c = ''http://localhost:8000/auth/refresh'')
     (fetched (snd (request (Suc n) always401 ''/chat/sessions'' get staleClient))) =
     replicate n (refreshCall staleClient) \<and>
   accessToken (snd (request n always401 ''/chat/sessions'' get staleClient)) = Str ''stale'' \<and>
   getItem (snd (request n always401 ''/chat/sessions'' get staleClient)) ''refresh_token'' = Str ''r1''"
proof -
  have t: "truthy (accessToken staleClient)" "truthy (getItem staleClient ''refresh_token'')"
    by (simp_all add: staleClient_def ApiService_def getItem_def)
  have u: "url (refreshCall staleClient) = ''http://localhost:8000/auth/refresh''"
    "url (buildConfig staleClient ''/chat/sessions'' get) \<noteq> ''http://localhost:8000/auth/refresh''"
    "fetched staleClient = []"
    by (simp_all add: refreshCall_def buildConfig_def staleClient_def ApiService_def)
  have f: "filter (\<lambda>c. url c = ''http://localhost:8000/auth/refresh'') (replicate n (refreshCall staleClient))
           = replicate n (refreshCall staleClient)"
    using u(1) by simp
  show ?thesis
    using f u by (simp add: request_always401 [OF t] getItem_def) (simp add: staleClient_def ApiService_def)
qed



text \<open>
  C3. A \<open>sendMessage\<close> whose dispatch throws: afterwards the current session is the
  snapshot \<open>targetChat\<close> taken before the optimistic append (its messages, title and
  \<open>updatedAt\<close> with it, so the user's message is gone), and every entry of the directory
  with the target's identifier is that snapshot too, the other entries being untouched. When
  the entry held the snapshot before the append, the whole directory is as it was.
\<close>

theorem sendMessage_rollback:
  assumes "targetOf e a st = Some targetChat"
      and "caught e a content st = Some err"
  shows "currentChat (beforeAppend e a st) = Some targetChat \<and>
         currentChat (sendMessage e a content st) = Some targetChat \<and>
         chatHistories (sendMessage e a content st) =
           map (\<lambda>h. if chat_id h = chat_id targetChat then targetChat else h)
             (chatHistories (beforeAppend e a st)) \<and>
         (\<forall>h \<in> set (chatHistories (sendMessage e a content st)).
            chat_id h = chat_id targetChat \<longrightarrow> h = targetChat) \<and>
         ((\<forall>h \<in> set (chatHistories (beforeAppend e a st)).
             chat_id h = chat_id targetChat \<longrightarrow> h = targetChat) \<longrightarrow>
          chatHistories (sendMessage e a content st) = chatHistories (beforeAppend e a st))"
proof -
  obtain st1 u st2 r st3 where
    s: "resolveTarget e a st = (Some targetChat, st1)"
       "optimisticStep e content targetChat st1 = (u, st2)"
       "dispatch e a content targetChat u st2 = (r, st3)"
    using stages_exist [OF assms(1)] by blast
  have r: "r = Some err" using sendMessage_stages(2) [OF s] assms(2) by simp
  have fin: "sendMessage e a content st = publish targetChat targetChat st3"
    using sendMessage_stages(1) [OF s] r by simp
  have b: "beforeAppend e a st = st1" using sendMessage_stages(5) [OF s] .
  have d: "chatHistories st3 = chatHistories st2" using dispatch_throws s(3) r by blast
  have o: "chatHistories st2 =
             map (\<lambda>h. if chat_id h = chat_id targetChat then u else h) (chatHistories st1)"
          "chat_id u = chat_id targetChat"
    using optimisticStep_state [OF s(2)] by simp_all
  have dir: "chatHistories (sendMessage e a content st) =
               map (\<lambda>h. if chat_id h = chat_id targetChat then targetChat else h) (chatHistories st1)"
    using fin d o by (simp add: prims map_replace_twice)
  have cur: "currentChat (sendMessage e a content st) = Some targetChat"
    using fin by (simp add: prims)
  have cur0: "currentChat st1 = Some targetChat" using resolveTarget_some [OF s(1)] by simp
  show ?thesis using dir cur cur0 b by (auto simp: map_replace_same)
qed

theorem sendMessage_rollback_witness:
  "targetOf backendDown True (idle [chat7, chat8] (Some chat7)) = Some chat7 \<and>
   caught backendDown True (js ''Hello'') (idle [chat7, chat8] (Some chat7)) =
     Some (Error ''Backend server is not running'') \<and>
   currentChat (sendMessage backendDown True (js ''Hello'') (idle [chat7, chat8] (Some chat7))) = Some chat7 \<and>
   chatHistories (sendMessage backendDown True (js ''Hello'') (idle [chat7, chat8] (Some chat7))) =
     [chat7, chat8]"
proof -
  have h1: "targetOf backendDown True (idle [chat7, chat8] (Some chat7)) = Some chat7"
    by (simp add: chat_ops fixtures)
  have h2: "caught backendDown True (js ''Hello'') (idle [chat7, chat8] (Some chat7)) =
              Some (Error ''Backend server is not running'')"
    by (simp add: chat_ops fixtures prims evals)
  have b: "chatHistories (beforeAppend backendDown True (idle [chat7, chat8] (Some chat7))) = [chat7, chat8]"
    by (simp add: chat_ops fixtures)
  have "chat_id chat8 \<noteq> chat_id chat7" by (simp add: fixtures)
  then show ?thesis using h1 h2 b sendMessage_rollback [OF h1 h2] by simp
qed

text \<open>
  C4. The claim: on every transition to the authenticated state the directory is reloaded
  from the server and the most recent server session is loaded and made current, whatever
  was current before. The code makes the most recent session current only when no session
  is current (\<open>!currentChat\<close>): with a local session current the effect reloads the
  directory and leaves the current session as it is.
\<close>

theorem authEffect_keeps_current_counterexample:
  "getChatSessions backendUp = Inr [session7, session8] \<and>
   getChatMessages backendUp (Num 7) = Inr serverLog \<and>
   currentChat (authEffect backendUp True (idle [localChat] (Some localChat))) = Some localChat \<and>
   localChat \<noteq> convertApiChatToLocal session7 serverLog"
  by (simp add: chat_ops fixtures prims evals)

text \<open>
  C4, as the code has it. When the authenticated effect runs and the list of sessions is
  fetched, the directory becomes the server's list, each session without messages; a
  session that was current stays current; when none was current and the list is not empty,
  the messages of its first (most recent) session are fetched and, if that succeeds, that
  session with those messages becomes current.
\<close>

theorem authEffect_reload:
  assumes "getChatSessions e = Inr sessions"
  shows "chatHistories (authEffect e True st) =
           map (\<lambda>session. convertApiChatToLocal session []) sessions \<and>
         (currentChat st \<noteq> None \<longrightarrow> currentChat (authEffect e True st) = currentChat st) \<and>
         (\<forall>mostRecent older msgs.
            currentChat st = None \<and> sessions = mostRecent # older \<and>
            getChatMessages e (Num (session_id mostRecent)) = Inr msgs \<longrightarrow>
            currentChat (authEffect e True st) = Some (convertApiChatToLocal mostRecent msgs))"
  using assms
  by (auto simp: authEffect_def loadChatSessions_def prims Let_def parseInt_toString
        convertApiChatToLocal_def
      split: sum.splits)

theorem authEffect_reload_witness:
  "getChatSessions backendUp = Inr [session7, session8] \<and>
   getChatMessages backendUp (Num (session_id session7)) = Inr serverLog \<and>
   chatHistories (authEffect backendUp True (idle [localChat] None)) =
     [convertApiChatToLocal session7 [], convertApiChatToLocal session8 []] \<and>
   currentChat (authEffect backendUp True (idle [localChat] None)) =
     Some (convertApiChatToLocal session7 serverLog) \<and>
   currentChat (authEffect backendUp True (idle [localChat] (Some localChat))) = Some localChat"
proof -
  have h: "getChatSessions backendUp = Inr [session7, session8]" by (simp add: backendUp_def)
  have g: "getChatMessages backendUp (Num (session_id session7)) = Inr serverLog"
    by (simp add: backendUp_def)
  have c: "currentChat (idle [localChat] None) = None"
    "currentChat (idle [localChat] (Some localChat)) = Some localChat"
    by (simp_all add: idle_def)
  show ?thesis
    using h g c authEffect_reload [OF h, of "idle [localChat] None"]
      authEffect_reload [OF h, of "idle [localChat] (Some localChat)"]
    by simp
qed

text \<open>
  C5. A run of \<open>sendMessage(content)\<close> with target \<open>targetChat\<close>: before anything is
  sent, the current session and the directory entry of the target are replaced by the
  optimistic copy, whose title is the first 30 code units of \<open>content\<close> followed by
  \<open>...\<close> when the target has no message (also when \<open>content\<close> has 30 code units or
  fewer), and the title of the target otherwise. \<open>sendMessage\<close> continues from that state
  with the dispatch; on the canned path it ends with that title in the current session
  and in the directory entry.
\<close>

theorem sendMessage_speculative_title:
  assumes "targetOf e a st = Some targetChat"
  shows "\<exists>updatedChat.
           currentChat (afterAppend e a content st) = Some updatedChat \<and>
           chatHistories (afterAppend e a content st) =
             map (\<lambda>h. if chat_id h = chat_id targetChat then updatedChat else h)
               (chatHistories (beforeAppend e a st)) \<and>
           title updatedChat =
             (if messages targetChat = [] then take 30 content @ js ''...'' else title targetChat) \<and>
           (messages targetChat = [] \<and> length content \<le> 30 \<longrightarrow>
              title updatedChat = content @ js ''...'') \<and>
           sendMessage e a content st =
             (case dispatch e a content targetChat updatedChat (afterAppend e a content st) of
                (None, st3) \<Rightarrow> st3
              | (Some err, st3) \<Rightarrow> publish targetChat targetChat st3) \<and>
           (\<not> (a \<and> \<not> isLocal (chat_id targetChat)) \<longrightarrow>
              (\<exists>c. currentChat (sendMessage e a content st) = Some c \<and>
                 title c = title updatedChat \<and>
                 (\<forall>h \<in> set (chatHistories (sendMessage e a content st)).
                    chat_id h = chat_id targetChat \<longrightarrow> h = c)))"
proof -
  obtain st1 u st2 r st3 where
    s: "resolveTarget e a st = (Some targetChat, st1)"
       "optimisticStep e content targetChat st1 = (u, st2)"
       "dispatch e a content targetChat u st2 = (r, st3)"
    using stages_exist [OF assms] by blast
  have aa: "afterAppend e a content st = st2" using sendMessage_stages(3) [OF s] .
  have bb: "beforeAppend e a st = st1" using sendMessage_stages(5) [OF s] .
  note o = optimisticStep_state [OF s(2)]
  have run: "sendMessage e a content st =
             (case dispatch e a content targetChat u st2 of
                (None, st3) \<Rightarrow> st3
              | (Some err, st3) \<Rightarrow> publish targetChat targetChat st3)"
    using sendMessage_stages(1) [OF s] s(3) by (simp split: option.splits)
  have canned: "\<exists>c. currentChat (sendMessage e a content st) = Some c \<and> title c = title u \<and>
                 (\<forall>h \<in> set (chatHistories (sendMessage e a content st)).
                    chat_id h = chat_id targetChat \<longrightarrow> h = c)"
    if "\<not> (a \<and> \<not> isLocal (chat_id targetChat))"
  proof -
    have loc: "dispatchLocal e targetChat u st2 = (r, st3)" using s(3) that by (auto simp: dispatch_def)
    note d = dispatchLocal_state [OF loc]
    have fin: "sendMessage e a content st = st3" using sendMessage_stages(1) [OF s] d by simp
    obtain c where c: "currentChat st3 = Some c" "chat_id c = chat_id u" "title c = title u"
      "chatHistories st3 = map (\<lambda>h. if chat_id h = chat_id targetChat then c else h) (chatHistories st2)"
      using d by blast
    have "\<forall>h \<in> set (chatHistories st3). chat_id h = chat_id targetChat \<longrightarrow> h = c"
      using c(2,4) o by auto
    then show ?thesis using fin c by auto
  qed
  show ?thesis
    using aa bb o run canned by (intro exI [of _ u]) auto
qed

theorem sendMessage_speculative_title_witness:
  "targetOf backendUp False (idle [] None) = Some localChat \<and>
   map_option title (currentChat (afterAppend backendUp False (js ''Hello'') (idle [] None))) =
     Some (js ''Hello...'') \<and>
   map_option title (currentChat (sendMessage backendUp False (js ''Hello'') (idle [] None))) =
     Some (js ''Hello...'') \<and>
   map title (chatHistories (sendMessage backendUp False (js ''Hello'') (idle [] None))) =
     [js ''Hello...'']"
proof -
  have h: "targetOf backendUp False (idle [] None) = Some localChat"
    by (simp add: chat_ops fixtures prims evals)
  have m: "messages localChat = []" "isLocal (chat_id localChat)"
    "take 30 (js ''Hello'') @ js ''...'' = js ''Hello...''"
    by (simp_all add: localChat_def evals)
  have b: "map chat_id (chatHistories (beforeAppend backendUp False (idle [] None))) = [chat_id localChat]"
    by (simp add: chat_ops fixtures prims evals)
  from sendMessage_speculative_title [OF h, of "js ''Hello''"]
  obtain u c where u:
    "currentChat (afterAppend backendUp False (js ''Hello'') (idle [] None)) = Some u"
    "chatHistories (afterAppend backendUp False (js ''Hello'') (idle [] None)) =
       map (\<lambda>h. if chat_id h = chat_id localChat then u else h)
         (chatHistories (beforeAppend backendUp False (idle [] None)))"
    "title u = js ''Hello...''"
    "currentChat (sendMessage backendUp False (js ''Hello'') (idle [] None)) = Some c"
    "title c = title u"
    "\<forall>h \<in> set (chatHistories (sendMessage backendUp False (js ''Hello'') (idle [] None))).
        chat_id h = chat_id localChat \<longrightarrow> h = c"
    using m by auto
  have ids: "map chat_id (chatHistories (sendMessage backendUp False (js ''Hello'') (idle [] None))) =
               [chat_id localChat]"
    by (simp add: chat_ops fixtures prims evals)
  then obtain x where x: "chatHistories (sendMessage backendUp False (js ''Hello'') (idle [] None)) = [x]"
    "chat_id x = chat_id localChat"
    by (auto simp: map_eq_Cons_conv)
  then have "x = c" using u(6) by simp
  then show ?thesis using h u x by simp
qed

text \<open>
  C6. No call of \<open>apiService\<close> is made by \<open>createNewChat\<close> for a visitor who is not
  signed in, by \<open>selectChat\<close> on a local identifier, or by \<open>sendMessage\<close> on a local
  target. \<open>createNewChat\<close> puts a new local session in front of the directory and makes
  it current; \<open>selectChat\<close> changes nothing but the current session; \<open>sendMessage\<close>
  waits for a delay of at least 1000 and at most 3000 milliseconds (3000 is reached for
  the largest reading, \<open>delay_3000\<close>) and appends, after the user's message, an assistant
  message whose text is one of the three canned answers: the one at index
  \<open>floor (r * 3)\<close>, computed in doubles, for the reading \<open>r\<close> of \<open>Math.random()\<close>, a
  double with \<open>0 \<le> r < 1\<close>.
\<close>

theorem anonymous_no_network:
  "(\<not> a \<longrightarrow>
      calls (createNewChat e a st) = calls st \<and>
      (\<exists>c. currentChat (createNewChat e a st) = Some c \<and> isLocal (chat_id c) \<and>
         title c = js ''New Conversation'' \<and> messages c = [] \<and>
         chatHistories (createNewChat e a st) = c # chatHistories st)) \<and>
   (isLocal chatId \<longrightarrow>
      calls (selectChat e a chatId st) = calls st \<and>
      chatHistories (selectChat e a chatId st) = chatHistories st \<and>
      currentChat (selectChat e a chatId st) =
        (case find (\<lambda>h. chat_id h = chatId) (chatHistories st) of
           None \<Rightarrow> currentChat st | Some c \<Rightarrow> Some c)) \<and>
   (targetOf e a st = Some t \<and> isLocal (chat_id t) \<and>
    0 \<le> Math_random e (random_reads st) \<and> Math_random e (random_reads st) < 1 \<and>
    is_double (Math_random e (random_reads st)) \<and>
    0 \<le> Math_random e (Suc (random_reads st)) \<and> Math_random e (Suc (random_reads st)) < 1 \<longrightarrow>
      calls (sendMessage e a content st) = calls st \<and>
      (\<exists>d. delays (sendMessage e a content st) = delays st @ [d] \<and> 1000 \<le> d \<and> d \<le> 3000 \<and>
         d = js_plus 1000 (js_times (Math_random e (Suc (random_reads st))) 2000)) \<and>
      (\<exists>c userMessage aiMessage.
         currentChat (sendMessage e a content st) = Some c \<and>
         messages c = messages t @ [userMessage, aiMessage] \<and>
         msg_content userMessage = content \<and> msg_role userMessage = user \<and>
         msg_role aiMessage = assistant \<and>
         nat \<lfloor>js_times (Math_random e (random_reads st)) 3\<rfloor> < length mockResponses \<and>
         msg_content aiMessage =
           mockResponses ! nat \<lfloor>js_times (Math_random e (random_reads st)) 3\<rfloor>))"
proof (intro conjI impI)
  assume "\<not> a"
  then show "calls (createNewChat e a st) = calls st"
    and "\<exists>c. currentChat (createNewChat e a st) = Some c \<and> isLocal (chat_id c) \<and>
         title c = js ''New Conversation'' \<and> messages c = [] \<and>
         chatHistories (createNewChat e a st) = c # chatHistories st"
    using createNewChat_anonymous [of e st] by simp_all
next
  assume "isLocal chatId"
  then show "calls (selectChat e a chatId st) = calls st"
    and "chatHistories (selectChat e a chatId st) = chatHistories st"
    and "currentChat (selectChat e a chatId st) =
        (case find (\<lambda>h. chat_id h = chatId) (chatHistories st) of
           None \<Rightarrow> currentChat st | Some c \<Rightarrow> Some c)"
    using selectChat_local [of chatId e a st] by simp_all
next
  assume h: "targetOf e a st = Some t \<and> isLocal (chat_id t) \<and>
    0 \<le> Math_random e (random_reads st) \<and> Math_random e (random_reads st) < 1 \<and>
    is_double (Math_random e (random_reads st)) \<and>
    0 \<le> Math_random e (Suc (random_reads st)) \<and> Math_random e (Suc (random_reads st)) < 1"
  note l = sendMessage_local [of e a st t content]
  note f = at_floor_random [of "Math_random e (random_reads st)"]
  note b = delay_bounds [of "Math_random e (Suc (random_reads st))"]
  show "calls (sendMessage e a content st) = calls st" using h l by simp
  show "\<exists>d. delays (sendMessage e a content st) = delays st @ [d] \<and> 1000 \<le> d \<and> d \<le> 3000 \<and>
         d = js_plus 1000 (js_times (Math_random e (Suc (random_reads st))) 2000)"
    using h l b by simp
  show "\<exists>c userMessage aiMessage.
         currentChat (sendMessage e a content st) = Some c \<and>
         messages c = messages t @ [userMessage, aiMessage] \<and>
         msg_content userMessage = content \<and> msg_role userMessage = user \<and>
         msg_role aiMessage = assistant \<and>
         nat \<lfloor>js_times (Math_random e (random_reads st)) 3\<rfloor> < length mockResponses \<and>
         msg_content aiMessage =
           mockResponses ! nat \<lfloor>js_times (Math_random e (random_reads st)) 3\<rfloor>"
    using h l f by (auto simp: mockResponses_def)
qed

theorem anonymous_no_network_witness:
  "isLocal (chat_id localChat) \<and>
   targetOf backendUp False (idle [localChat] (Some localChat)) = Some localChat \<and>
   (0::real) \<le> 1 / 2 \<and> (1::real) / 2 < 1 \<and> is_double (1 / 2) \<and>
   calls (createNewChat backendUp False (idle [] None)) = [] \<and>
   calls (selectChat backendUp False (chat_id localChat) (idle [localChat] None)) = [] \<and>
   currentChat (selectChat backendUp False (chat_id localChat) (idle [localChat] None)) = Some localChat \<and>
   calls (sendMessage backendUp False (js ''Hello'') (idle [localChat] (Some localChat))) = [] \<and>
   delays (sendMessage backendUp False (js ''Hello'') (idle [localChat] (Some localChat))) = [2000] \<and>
   map_option (map msg_content \<circ> messages)
     (currentChat (sendMessage backendUp False (js ''Hello'') (idle [localChat] (Some localChat)))) =
     Some [js ''Hello'', mockResponse1]"
proof -
  have l: "isLocal (chat_id localChat)" by (simp add: fixtures evals)
  have t: "targetOf backendUp False (idle [localChat] (Some localChat)) = Some localChat"
    by (simp add: chat_ops fixtures)
  have r: "Math_random backendUp (random_reads (idle [localChat] (Some localChat))) = 1 / 2"
    "Math_random backendUp (Suc (random_reads (idle [localChat] (Some localChat)))) = 1 / 2"
    by (simp_all add: backendUp_def)
  have i: "js_times (1 / 2) 3 = 3 / 2"
    using fl_double [OF is_double_3_2] by (simp add: js_times_def)
  have d: "js_plus 1000 (js_times (1 / 2) 2000) = 2000"
    using fl_double [OF is_double_1000] fl_double [OF is_double_2000]
    by (simp add: js_times_def js_plus_def)
  have n: "nat \<lfloor>(3::real) / 2\<rfloor> = 1" by simp
  have f: "find (\<lambda>h. chat_id h = chat_id localChat) (chatHistories (idle [localChat] None)) = Some localChat"
    by (simp add: idle_def)
  have s: "calls (idle [] None) = []" "calls (idle [localChat] None) = []"
    "calls (idle [localChat] (Some localChat)) = []" "delays (idle [localChat] (Some localChat)) = []"
    "messages localChat = []"
    by (simp_all add: fixtures)
  have m: "mockResponses ! 1 = mockResponse1" by (simp add: mockResponses_def)
  note w1 = anonymous_no_network [of False backendUp "idle [] None" "chat_id localChat" localChat "js ''Hello''"]
  note w2 = anonymous_no_network [of False backendUp "idle [localChat] None" "chat_id localChat" localChat "js ''Hello''"]
  note w3 = anonymous_no_network [of False backendUp "idle [localChat] (Some localChat)" "chat_id localChat" localChat "js ''Hello''"]
  have c1: "calls (createNewChat backendUp False (idle [] None)) = []" using w1 s by simp
  have c2: "calls (selectChat backendUp False (chat_id localChat) (idle [localChat] None)) = []"
    "currentChat (selectChat backendUp False (chat_id localChat) (idle [localChat] None)) = Some localChat"
    using w2 l s f by simp_all
  have c3: "calls (sendMessage backendUp False (js ''Hello'') (idle [localChat] (Some localChat))) = []"
    using w3 l t r s is_double_half by simp
  have c4: "delays (sendMessage backendUp False (js ''Hello'') (idle [localChat] (Some localChat))) = [2000]"
    using w3 l t r s d is_double_half by auto
  have c5: "map_option (map msg_content \<circ> messages)
     (currentChat (sendMessage backendUp False (js ''Hello'') (idle [localChat] (Some localChat)))) =
     Some [js ''Hello'', mockResponse1]"
    using w3 l t r s i n m is_double_half by auto
  show ?thesis using l t c1 c2 c3 c4 c5 is_double_half by simp
qed

text \<open>
  C7. \<open>deleteChat\<close> of a signed-in user on an identifier that is not local: when the
  server call throws, the directory and the current session are unchanged; when it
  succeeds, the directory is the old one without the sessions of that identifier, and if
  the deleted session was current, the new current session is the first (most recent) of
  the remaining entries, or none when nothing remains.
\<close>

theorem deleteChat_remote:
  assumes "a" and "\<not> isLocal chatId"
  shows "(\<forall>err. deleteChatSession e (parseInt chatId) = Inl err \<longrightarrow>
            chatHistories (deleteChat e a chatId st) = chatHistories st \<and>
            currentChat (deleteChat e a chatId st) = currentChat st) \<and>
         (deleteChatSession e (parseInt chatId) = Inr () \<longrightarrow>
            chatHistories (deleteChat e a chatId st) =
              filter (\<lambda>h. chat_id h \<noteq> chatId) (chatHistories st) \<and>
            chatId \<notin> chat_id ` set (chatHistories (deleteChat e a chatId st)) \<and>
            currentChat (deleteChat e a chatId st) =
              (if map_option chat_id (currentChat st) = Some chatId
               then (case filter (\<lambda>h. chat_id h \<noteq> chatId) (chatHistories st) of
                       [] \<Rightarrow> None | mostRecent # older \<Rightarrow> Some mostRecent)
               else currentChat st))"
  using assms
  by (auto simp: deleteChat_def prims Let_def split: option.splits list.splits sum.splits)

theorem deleteChat_remote_witness:
  "\<not> isLocal ''7'' \<and>
   deleteChatSession backendDown (parseInt ''7'') = Inl (Error ''Backend server is not running'') \<and>
   chatHistories (deleteChat backendDown True ''7'' (idle [chat7, chat8] (Some chat7))) = [chat7, chat8] \<and>
   deleteChatSession backendUp (parseInt ''7'') = Inr () \<and>
   chatHistories (deleteChat backendUp True ''7'' (idle [chat7, chat8] (Some chat7))) = [chat8] \<and>
   currentChat (deleteChat backendUp True ''7'' (idle [chat7, chat8] (Some chat7))) = Some chat8"
proof -
  have h: "\<not> isLocal ''7''" by (simp add: evals)
  have d: "deleteChatSession backendDown (parseInt ''7'') = Inl (Error ''Backend server is not running'')"
    by (simp add: backendDown_def)
  have u: "deleteChatSession backendUp (parseInt ''7'') = Inr ()" by (simp add: backendUp_def)
  have f: "filter (\<lambda>h. chat_id h \<noteq> ''7'') [chat7, chat8] = [chat8]" by (simp add: fixtures)
  have s: "chatHistories (idle [chat7, chat8] (Some chat7)) = [chat7, chat8]"
     "currentChat (idle [chat7, chat8] (Some chat7)) = Some chat7" "chat_id chat7 = ''7''"
    by (simp_all add: fixtures)
  show ?thesis
    using h d u f s
      deleteChat_remote [OF TrueI h, of backendDown "idle [chat7, chat8] (Some chat7)"]
      deleteChat_remote [OF TrueI h, of backendUp "idle [chat7, chat8] (Some chat7)"]
    by simp
qed

text \<open>
  C8. In every state that the chat core reaches, and for each of the three operations,
  the namespace of the identifier decides the path. \<open>selectChat\<close> and \<open>deleteChat\<close>, called
  with the identifier of a directory entry, make no call when it is local and start with
  their call to the server when it is not. \<open>sendMessage\<close> makes no call for a local target
  and, for a target that is not local, sends it to the server after the target is
  resolved. (A server session is only held while the user is signed in,
  \<open>reachable_onlyLocal\<close>.) The operations lead to reachable states again, and none of them
  changes the identifier of a session it holds: \<open>sendMessage\<close> keeps the identifiers of the
  directory and of the current session, \<open>selectChat\<close> keeps the directory and makes current
  a session of the identifier asked for, \<open>deleteChat\<close> only removes entries.
\<close>

theorem namespace_decides_path:
  assumes "reachable a st"
  shows "(\<forall>chatId \<in> chat_id ` set (chatHistories st).
            (isLocal chatId \<longrightarrow>
               calls (selectChat e a chatId st) = calls st \<and>
               calls (deleteChat e a chatId st) = calls st) \<and>
            (\<not> isLocal chatId \<longrightarrow>
               calls (selectChat e a chatId st) = calls st @ [GetChatMessages (parseInt chatId)] \<and>
               calls (deleteChat e a chatId st) = calls st @ [DeleteChatSession (parseInt chatId)]) \<and>
            reachable a (selectChat e a chatId st) \<and> reachable a (deleteChat e a chatId st) \<and>
            chatHistories (selectChat e a chatId st) = chatHistories st \<and>
            (\<forall>c. currentChat (selectChat e a chatId st) = Some c \<longrightarrow>
               currentChat st = Some c \<or> chat_id c = chatId) \<and>
            (chatHistories (deleteChat e a chatId st) = chatHistories st \<or>
             chatHistories (deleteChat e a chatId st) =
               filter (\<lambda>h. chat_id h \<noteq> chatId) (chatHistories st))) \<and>
         (\<forall>t. targetOf e a st = Some t \<longrightarrow>
            (isLocal (chat_id t) \<longrightarrow> calls (sendMessage e a content st) = calls st) \<and>
            (\<not> isLocal (chat_id t) \<longrightarrow>
               (\<exists>more. calls (sendMessage e a content st) =
                  calls (beforeAppend e a st) @ SendMessage (parseInt (chat_id t)) content # more))) \<and>
         (\<forall>t. currentChat st = Some t \<longrightarrow>
            map chat_id (chatHistories (sendMessage e a content st)) = map chat_id (chatHistories st) \<and>
            map_option chat_id (currentChat (sendMessage e a content st)) = Some (chat_id t)) \<and>
         reachable a (sendMessage e a content st)"
proof (intro conjI ballI allI impI)
  fix chatId
  assume held: "chatId \<in> chat_id ` set (chatHistories st)"
  show "reachable a (selectChat e a chatId st)" using assms held by (rule reachable.select)
  show "reachable a (deleteChat e a chatId st)" using assms held by (rule reachable.delete)
  show "chatHistories (selectChat e a chatId st) = chatHistories st"
    using selectChat_ids [of e a chatId st] by simp
  show "chatHistories (deleteChat e a chatId st) = chatHistories st \<or>
        chatHistories (deleteChat e a chatId st) =
          filter (\<lambda>h. chat_id h \<noteq> chatId) (chatHistories st)"
    using deleteChat_ids [of e a chatId st] by simp
  {
    fix c
    assume "currentChat (selectChat e a chatId st) = Some c"
    then show "currentChat st = Some c \<or> chat_id c = chatId"
      using selectChat_ids [of e a chatId st] by auto
  }
  {
    assume "isLocal chatId"
    then show "calls (selectChat e a chatId st) = calls st"
      and "calls (deleteChat e a chatId st) = calls st"
      using selectChat_local [of chatId e a st] by (simp_all add: deleteChat_calls)
  }
  {
    assume r: "\<not> isLocal chatId"
    have "a"
    proof (rule ccontr)
      assume "\<not> a"
      then have "onlyLocal st" using reachable_onlyLocal [OF assms] by simp
      then show False using held r by (auto simp: onlyLocal_def list_all_iff)
    qed
    then show "calls (selectChat e a chatId st) = calls st @ [GetChatMessages (parseInt chatId)]"
      and "calls (deleteChat e a chatId st) = calls st @ [DeleteChatSession (parseInt chatId)]"
      using r selectChat_remote_calls [of chatId e st] by (simp_all add: deleteChat_calls)
  }
next
  fix t
  assume t: "targetOf e a st = Some t"
  {
    assume "isLocal (chat_id t)"
    then show "calls (sendMessage e a content st) = calls st"
      using t sendMessage_local [of e a st t content] by simp
  }
  {
    assume r: "\<not> isLocal (chat_id t)"
    have "a"
    proof (rule ccontr)
      assume na: "\<not> a"
      then have o: "onlyLocal st" using reachable_onlyLocal [OF assms] by simp
      obtain st1 where s: "resolveTarget e a st = (Some t, st1)"
        using t by (cases "resolveTarget e a st") (simp add: targetOf_def)
      show False using resolveTarget_some [OF s] o na r by (auto simp: onlyLocal_def)
    qed
    then show "\<exists>more. calls (sendMessage e a content st) =
                 calls (beforeAppend e a st) @ SendMessage (parseInt (chat_id t)) content # more"
      using t r sendMessage_target_calls [of e st t content] by simp
  }
next
  fix t
  assume "currentChat st = Some t"
  then show "map chat_id (chatHistories (sendMessage e a content st)) = map chat_id (chatHistories st)"
    and "map_option chat_id (currentChat (sendMessage e a content st)) = Some (chat_id t)"
    using sendMessage_ids [of st t e a content] by simp_all
next
  show "reachable a (sendMessage e a content st)" using assms by (rule reachable.send)
qed

theorem namespace_decides_path_witness:
  "reachable True signedIn \<and> reachable False visiting \<and>
   chat_id chat8 \<in> chat_id ` set (chatHistories signedIn) \<and> \<not> isLocal (chat_id chat8) \<and>
   chat_id localChat \<in> chat_id ` set (chatHistories visiting) \<and> isLocal (chat_id localChat) \<and>
   calls (selectChat backendUp True (chat_id chat8) signedIn) =
     [GetChatSessions, GetChatMessages (Num 7), GetChatMessages (Num 8)] \<and>
   calls (deleteChat backendUp True (chat_id chat8) signedIn) =
     [GetChatSessions, GetChatMessages (Num 7), DeleteChatSession (Num 8)] \<and>
   take 3 (calls (sendMessage backendUp True (js ''Hello'') signedIn)) =
     [GetChatSessions, GetChatMessages (Num 7), SendMessage (Num 7) (js ''Hello'')] \<and>
   calls (selectChat backendUp False (chat_id localChat) visiting) = [] \<and>
   calls (deleteChat backendUp False (chat_id localChat) visiting) = [] \<and>
   calls (sendMessage backendUp False (js ''Hello'') visiting) = []"
proof -
  have r1: "reachable True signedIn"
    unfolding signedIn_def by (rule reachable.effect [OF reachable.start])
  have r2: "reachable False visiting"
    unfolding visiting_def by (rule reachable.create [OF reachable.start])
  have h1: "chat_id chat8 \<in> chat_id ` set (chatHistories signedIn)" by (simp add: signedIn_eval)
  have h2: "chat_id localChat \<in> chat_id ` set (chatHistories visiting)" by (simp add: visiting_eval)
  have n: "\<not> isLocal (chat_id chat8)" "isLocal (chat_id localChat)"
    "parseInt (chat_id chat8) = Num 8"
    by (simp_all add: fixtures evals)
  have t1: "targetOf backendUp True signedIn = Some (convertApiChatToLocal session7 serverLog)"
    "beforeAppend backendUp True signedIn = signedIn"
    by (simp_all add: targetOf_def beforeAppend_def resolveTarget_def signedIn_eval)
  have n7: "\<not> isLocal (chat_id (convertApiChatToLocal session7 serverLog))"
    "parseInt (chat_id (convertApiChatToLocal session7 serverLog)) = Num 7"
    by (simp_all add: convertApiChatToLocal_def toString_not_local parseInt_toString session7_def)
  have t2: "targetOf backendUp False visiting = Some localChat"
    by (simp add: targetOf_def resolveTarget_def visiting_eval)
  have c: "calls signedIn = [GetChatSessions, GetChatMessages (Num 7)]" "calls visiting = []"
    by (simp_all add: signedIn_eval visiting_eval)
  note w1 = namespace_decides_path [OF r1, of backendUp "js ''Hello''"]
  note w2 = namespace_decides_path [OF r2, of backendUp "js ''Hello''"]
  have a1: "calls (selectChat backendUp True (chat_id chat8) signedIn) =
     [GetChatSessions, GetChatMessages (Num 7), GetChatMessages (Num 8)]"
    "calls (deleteChat backendUp True (chat_id chat8) signedIn) =
     [GetChatSessions, GetChatMessages (Num 7), DeleteChatSession (Num 8)]"
    using w1 h1 n c by auto
  have a2: "take 3 (calls (sendMessage backendUp True (js ''Hello'') signedIn)) =
     [GetChatSessions, GetChatMessages (Num 7), SendMessage (Num 7) (js ''Hello'')]"
    using w1 t1 n7 c by auto
  have a3: "calls (selectChat backendUp False (chat_id localChat) visiting) = []"
    "calls (deleteChat backendUp False (chat_id localChat) visiting) = []"
    using w2 h2 n c by auto
  have a4: "calls (sendMessage backendUp False (js ''Hello'') visiting) = []"
    using w2 t2 n c by auto
  show ?thesis using r1 r2 h1 h2 n a1 a2 a3 a4 by simp
qed



text \<open>
  C10. The claim: the application is authenticated only with a fetched profile and a
  stored access token, so a stored access token whose profile request fails at startup
  leaves it anonymous, and the startup check clears the token store. Whenever the profile
  request settles with an exception the code does this (\<open>checkAuth_profile_throws\<close>).
  But on the ordinary failing start, a stale access token with a refresh token stored and
  a backend that answers 401 to the profile request and to the refresh request, the
  profile request never settles (the loop of C1): the startup check stays pending at
  every fuel, no user is set, \<open>isLoading\<close> stays true, and the access token and both
  stored tokens are still there.
\<close>

theorem checkAuth_never_settles:
  "fst (checkAuth n always401 (AuthProvider staleClient)) = Pending \<and>
   \<not> isAuthenticated (snd (checkAuth n always401 (AuthProvider staleClient))) \<and>
   auth_user (snd (checkAuth n always401 (AuthProvider staleClient))) = None \<and>
   auth_isLoading (snd (checkAuth n always401 (AuthProvider staleClient))) \<and>
   accessToken (apiService (snd (checkAuth n always401 (AuthProvider staleClient)))) = Str ''stale'' \<and>
   getItem (apiService (snd (checkAuth n always401 (AuthProvider staleClient)))) ''access_token'' =
     Str ''stale'' \<and>
   getItem (apiService (snd (checkAuth n always401 (AuthProvider staleClient)))) ''refresh_token'' =
     Str ''r1''"
proof -
  have t: "truthy (accessToken staleClient)" "truthy (getItem staleClient ''refresh_token'')"
    by (simp_all add: staleClient_def ApiService_def getItem_def)
  have h: "hasToken staleClient" using t by (simp add: hasToken_def)
  have g: "getCurrentUser n always401 staleClient =
             (Pending, staleClient\<lparr>fetched := fetched staleClient @ callsMade n staleClient ''/auth/me'' get\<rparr>)"
    unfolding getCurrentUser_def get_def [symmetric] by (rule request_always401 [OF t])
  have k: "accessToken staleClient = Str ''stale''"
    "getItem staleClient ''access_token'' = Str ''stale''"
    "getItem staleClient ''refresh_token'' = Str ''r1''"
    by (simp_all add: staleClient_def ApiService_def getItem_def)
  show ?thesis
    using h g k by (simp add: checkAuth_def AuthProvider_def isAuthenticated_def)
qed

end
